theory Spec2Isabelle
  imports Main "HOL-Library.Sublist" "HOL-Library.AList" "HOL-Library.Multiset"
begin

section \<open>Strings, as the handlers use them\<close>

text \<open>
  A JavaScript string is modelled as a \<open>string\<close> (a list of 8-bit characters).
  \<open>s.startsWith(p)\<close> is \<open>prefix p s\<close> and \<open>s.endsWith(x)\<close> is \<open>suffix x s\<close>.
  \<open>split_on c s\<close> is \<open>s.split(c)\<close> for a one-character separator: the empty string
  splits into one empty piece.
\<close>

fun split_on :: "char \<Rightarrow> string \<Rightarrow> string list" where
  "split_on c [] = [[]]"
| "split_on c (x # xs) =
     (if x = c then [] # split_on c xs
      else (case split_on c xs of [] \<Rightarrow> [[x]] | y # ys \<Rightarrow> (x # y) # ys))"

definition is_space :: "char \<Rightarrow> bool" where
  "is_space c = (c \<in> set [CHR 0x09, CHR 0x0A, CHR 0x0B, CHR 0x0C, CHR 0x0D, CHR 0x20, CHR 0xA0])"

definition trim :: "string \<Rightarrow> string" where
  "trim s = rev (dropWhile is_space (rev (dropWhile is_space s)))"

definition digits :: string where
  "digits = ''0123456789''"

fun show_nat :: "nat \<Rightarrow> string" where
  "show_nat n = (if n < 10 then [digits ! n] else show_nat (n div 10) @ [digits ! (n mod 10)])"

declare show_nat.simps [simp del]

definition padStart2 :: "string \<Rightarrow> string" where
  "padStart2 s = replicate (2 - length s) (CHR ''0'') @ s"

section \<open>Paths\<close>

text \<open>
  An absolute path is the list of its segments; \<open>[]\<close> is the root directory.
  \<open>path_join dir s\<close> is \<open>path.join(dir, s)\<close> on POSIX: the string is cut at every
  slash, empty and \<open>.\<close> segments are dropped, and a \<open>..\<close> segment removes the segment
  before it (at the root it is dropped).
\<close>

type_synonym path = "string list"

fun normalize_segs :: "path \<Rightarrow> string list \<Rightarrow> path" where
  "normalize_segs acc [] = acc"
| "normalize_segs acc (s # ss) =
     (if s = [] \<or> s = ''.'' then normalize_segs acc ss
      else if s = ''..'' then normalize_segs (butlast acc) ss
      else normalize_segs (acc @ [s]) ss)"

definition path_join :: "path \<Rightarrow> string \<Rightarrow> path" where
  "path_join dir s = normalize_segs dir (split_on (CHR ''/'') s)"

definition basename :: "path \<Rightarrow> string" where
  "basename p = (case rev p of [] \<Rightarrow> [] | x # _ \<Rightarrow> x)"

definition path_str :: "path \<Rightarrow> string" where
  "path_str p = (if p = [] then ''/'' else concat (map (\<lambda>c. CHR ''/'' # c) p))"

section \<open>Errors\<close>

text \<open>
  A thrown value is either a Node system error carrying a \<open>code\<close> (\<open>ENOENT\<close>,
  \<open>EACCES\<close>, ...) or any other exception (a \<open>SyntaxError\<close> of \<open>JSON.parse\<close>, a
  \<open>TypeError\<close>, an error of the tar library). \<open>error_text e\<close> stands for what the
  template literal \<open>${error}\<close> renders; for a system error that is shortened to
  \<open>Error:\<close> and the code.
\<close>

datatype error = Errno string | Thrown string

fun error_code :: "error \<Rightarrow> string option" where
  "error_code (Errno c) = Some c"
| "error_code (Thrown s) = None"

fun error_text :: "error \<Rightarrow> string" where
  "error_text (Errno c) = ''Error: '' @ c"
| "error_text (Thrown s) = s"

section \<open>The file system\<close>

text \<open>
  The file system is a tree: a regular file holds its bytes, a directory holds its
  entries by name. Paths are resolved from the root node. The operations below are what
  Node's \<open>fs/promises\<close> does when the operating system does not interfere; a refusal
  by the operating system is added to every call further down (\<open>denied\<close>).
\<close>

datatype node = File string | Dir "(string \<times> node) list"

fun fs_lookup :: "path \<Rightarrow> node \<Rightarrow> node option" where
  "fs_lookup [] t = Some t"
| "fs_lookup (x # p) (File s) = None"
| "fs_lookup (x # p) (Dir es) =
     (case map_of es x of None \<Rightarrow> None | Some c \<Rightarrow> fs_lookup p c)"

text \<open>\<open>fs_remove\<close> is \<open>rm\<close> with \<open>recursive\<close> and \<open>force\<close>: the entry and everything
  below it goes, and a missing entry is not an error. The root itself is never removed.\<close>

fun fs_remove :: "path \<Rightarrow> node \<Rightarrow> node" where
  "fs_remove [] t = t"
| "fs_remove (x # p) (File s) = File s"
| "fs_remove [x] (Dir es) = Dir (AList.delete x es)"
| "fs_remove (x # p) (Dir es) =
     (case map_of es x of
        None \<Rightarrow> Dir es
      | Some c \<Rightarrow> Dir (AList.update x (fs_remove p c) es))"

fun place_new :: "path \<Rightarrow> node \<Rightarrow> node" where
  "place_new [] c = c"
| "place_new (x # p) c = Dir [(x, place_new p c)]"

text \<open>\<open>fs_place p f t\<close> rewrites the node at \<open>p\<close> by \<open>f\<close>, which sees the node there
  (or \<open>None\<close>). Missing directories on the way are created; a regular file on the way is
  \<open>ENOTDIR\<close>.\<close>

fun fs_place :: "path \<Rightarrow> (node option \<Rightarrow> error + node) \<Rightarrow> node \<Rightarrow> error + node" where
  "fs_place [] f t = f (Some t)"
| "fs_place (x # p) f (File s) = Inl (Errno ''ENOTDIR'')"
| "fs_place (x # p) f (Dir es) =
     (case map_of es x of
        None \<Rightarrow>
          (case f None of
             Inl e \<Rightarrow> Inl e
           | Inr c \<Rightarrow> Inr (Dir (AList.update x (place_new p c) es)))
      | Some d \<Rightarrow>
          (case fs_place p f d of
             Inl e \<Rightarrow> Inl e
           | Inr d' \<Rightarrow> Inr (Dir (AList.update x d' es))))"

definition ensure_dir :: "node option \<Rightarrow> error + node" where
  "ensure_dir n =
     (case n of
        None \<Rightarrow> Inr (Dir [])
      | Some (Dir es) \<Rightarrow> Inr (Dir es)
      | Some (File s) \<Rightarrow> Inl (Errno ''EEXIST''))"

definition fs_mkdir_p :: "path \<Rightarrow> node \<Rightarrow> error + unit \<times> node" where
  "fs_mkdir_p p t = (case fs_place p ensure_dir t of Inl e \<Rightarrow> Inl e | Inr t' \<Rightarrow> Inr ((), t'))"

definition fs_readFile :: "path \<Rightarrow> node \<Rightarrow> error + string \<times> node" where
  "fs_readFile p t =
     (case fs_lookup p t of
        None \<Rightarrow> Inl (Errno ''ENOENT'')
      | Some (Dir es) \<Rightarrow> Inl (Errno ''EISDIR'')
      | Some (File s) \<Rightarrow> Inr (s, t))"

definition put_file :: "string \<Rightarrow> node option \<Rightarrow> error + node" where
  "put_file s n =
     (case n of
        Some (Dir es) \<Rightarrow> Inl (Errno ''EISDIR'')
      | _ \<Rightarrow> Inr (File s))"

definition fs_writeFile :: "path \<Rightarrow> string \<Rightarrow> node \<Rightarrow> error + unit \<times> node" where
  "fs_writeFile p s t =
     (if p = [] then Inl (Errno ''EISDIR'')
      else (case fs_lookup (butlast p) t of
              None \<Rightarrow> Inl (Errno ''ENOENT'')
            | Some (File b) \<Rightarrow> Inl (Errno ''ENOTDIR'')
            | Some (Dir es) \<Rightarrow>
                (case fs_place p (put_file s) t of
                   Inl e \<Rightarrow> Inl e
                 | Inr t' \<Rightarrow> Inr ((), t'))))"

definition entry_names :: "(string \<times> node) list \<Rightarrow> string list" where
  "entry_names es = remdups (map fst es)"

definition fs_readdir :: "path \<Rightarrow> node \<Rightarrow> error + string list \<times> node" where
  "fs_readdir p t =
     (case fs_lookup p t of
        None \<Rightarrow> Inl (Errno ''ENOENT'')
      | Some (File s) \<Rightarrow> Inl (Errno ''ENOTDIR'')
      | Some (Dir es) \<Rightarrow> Inr (entry_names es, t))"

definition fs_rm :: "path \<Rightarrow> node \<Rightarrow> error + unit \<times> node" where
  "fs_rm p t = Inr ((), fs_remove p t)"

section \<open>The world outside the handlers\<close>

text \<open>
  Every call into \<open>fs/promises\<close> or the \<open>tar\<close> library is a \<open>call\<close>. The world
  records the calls in order (\<open>trace\<close>), as a test's mocks would, next to the file
  system itself and the sinks of the user interface and of the chat client.
\<close>

datatype call =
    Mkdir path
  | ReadFile path
  | WriteFile path
  | Readdir path
  | Rm path
  | Cp path path
  | Mkdtemp path
  | TarExtract path path
  | TarCreate path path

record ArchiveMetadata =
  filename :: string
  timestamp :: int
  description :: string

datatype json =
    JNull
  | JBool bool
  | JNum int
  | JStr string
  | JArr "json list"
  | JObj "(string \<times> json) list"

record date_fields =
  getFullYear :: nat
  getMonth :: nat
  getDate :: nat
  getHours :: nat
  getMinutes :: nat
  getSeconds :: nat

text \<open>
  What the handlers take from their platform, and do not implement, is a parameter:
  \<^item> \<open>denied c\<close>: the error with which the operating system refuses the call \<open>c\<close>
    (permissions, I/O errors), if it does;
  \<^item> \<open>untar bytes dir\<close>: the directory that \<open>tar.extract\<close> leaves when it unpacks
    \<open>bytes\<close> into \<open>dir\<close>; \<open>tar_pack filter dir\<close>: the bytes \<open>tar.create\<close> writes
    for \<open>dir\<close> under the entry filter;
  \<^item> \<open>cp_merge src dst\<close>: what \<open>fs.cp\<close> leaves when the destination exists;
  \<^item> \<open>parse_metadata\<close>, \<open>stringify_metadata\<close>: \<open>JSON.parse\<close> and
    \<open>JSON.stringify\<close> at the type \<open>ArchiveMetadata[]\<close> that the code declares for the
    metadata file; \<open>parse_json\<close>: \<open>JSON.parse\<close> of a legacy file;
  \<^item> the clock (\<open>date_now\<close>), the local-time fields of a time stamp (\<open>local_time\<close>),
    \<open>Date.toLocaleString\<close>, \<open>os.tmpdir()\<close>, \<open>process.cwd()\<close>, and the characters
    \<open>mkdtemp\<close> appends.
\<close>

record env =
  denied :: "call \<Rightarrow> error option"
  untar :: "string \<Rightarrow> node \<Rightarrow> error + node"
  tar_pack :: "(string \<Rightarrow> bool) \<Rightarrow> node \<Rightarrow> error + string"
  cp_merge :: "node \<Rightarrow> node \<Rightarrow> error + node"
  parse_metadata :: "string \<Rightarrow> error + ArchiveMetadata list"
  stringify_metadata :: "ArchiveMetadata list \<Rightarrow> string"
  parse_json :: "string \<Rightarrow> error + json"
  toLocaleString :: "int \<Rightarrow> string"
  local_time :: "int \<Rightarrow> date_fields"
  date_now :: int
  tmpdir :: path
  mkdtemp_suffix :: string
  process_cwd :: path

record world =
  fs :: node
  trace :: "call list"
  ui_history :: "json list"
  client_history :: "json list"
  items :: "(string \<times> int) list"

record Config =
  projectTempDir :: "path option"
  projectRoot :: "path option"
  geminiClient :: bool

record CommandContext =
  services_config :: "Config option"
  ui_loadHistory :: bool

datatype mtype = MInfo | MError

record message =
  messageType :: mtype
  content :: string

record CompletionCandidate =
  cand_label :: string
  cand_value :: string
  cand_description :: string

subsection \<open>Awaited calls, exceptions, try, catch and finally\<close>

type_synonym 'a io = "world \<Rightarrow> (error + 'a) \<times> world"

definition returnE :: "'a \<Rightarrow> 'a io" where
  "returnE x w = (Inr x, w)"

definition throwE :: "error \<Rightarrow> 'a io" where
  "throwE e w = (Inl e, w)"

definition bindE :: "'a io \<Rightarrow> ('a \<Rightarrow> 'b io) \<Rightarrow> 'b io" where
  "bindE m f w = (case m w of (Inl e, w') \<Rightarrow> (Inl e, w') | (Inr x, w') \<Rightarrow> f x w')"

definition catchE :: "'a io \<Rightarrow> (error \<Rightarrow> 'a io) \<Rightarrow> 'a io" where
  "catchE m h w = (case m w of (Inl e, w') \<Rightarrow> h e w' | (Inr x, w') \<Rightarrow> (Inr x, w'))"

text \<open>\<open>finally\<close>: the cleanup runs after the body on every path; when the cleanup
  throws, its exception replaces the body's outcome.\<close>

definition finallyE :: "'a io \<Rightarrow> unit io \<Rightarrow> 'a io" where
  "finallyE m c w =
     (case m w of
        (r, w') \<Rightarrow> (case c w' of (Inl e, w'') \<Rightarrow> (Inl e, w'') | (Inr u, w'') \<Rightarrow> (r, w'')))"

text \<open>A call is recorded, then refused by the operating system or carried out on the
  file system.\<close>

definition sys :: "env \<Rightarrow> call \<Rightarrow> (node \<Rightarrow> error + 'a \<times> node) \<Rightarrow> 'a io" where
  "sys env c act w =
     (let w1 = w\<lparr>trace := trace w @ [c]\<rparr> in
      case denied env c of
        Some e \<Rightarrow> (Inl e, w1)
      | None \<Rightarrow>
          (case act (fs w1) of
             Inl e \<Rightarrow> (Inl e, w1)
           | Inr (x, t) \<Rightarrow> (Inr x, w1\<lparr>fs := t\<rparr>)))"

definition copy_onto :: "env \<Rightarrow> node \<Rightarrow> node option \<Rightarrow> error + node" where
  "copy_onto env s n = (case n of None \<Rightarrow> Inr s | Some d \<Rightarrow> cp_merge env s d)"

definition fs_cp :: "env \<Rightarrow> path \<Rightarrow> path \<Rightarrow> node \<Rightarrow> error + unit \<times> node" where
  "fs_cp env src dst t =
     (case fs_lookup src t of
        None \<Rightarrow> Inl (Errno ''ENOENT'')
      | Some s \<Rightarrow>
          (case fs_place dst (copy_onto env s) t of
             Inl e \<Rightarrow> Inl e
           | Inr t' \<Rightarrow> Inr ((), t')))"

text \<open>\<open>mkdtemp(prefix)\<close> appends its characters to the last segment of the prefix and
  creates that directory, which must not exist, in an existing parent.\<close>

definition temp_dir_of :: "env \<Rightarrow> path \<Rightarrow> path" where
  "temp_dir_of env pre =
     (case rev pre of [] \<Rightarrow> [mkdtemp_suffix env] | nm # par \<Rightarrow> rev par @ [nm @ mkdtemp_suffix env])"

definition fs_mkdtemp :: "env \<Rightarrow> path \<Rightarrow> node \<Rightarrow> error + path \<times> node" where
  "fs_mkdtemp env pre t =
     (let dir = temp_dir_of env pre in
      case fs_lookup (butlast dir) t of
        None \<Rightarrow> Inl (Errno ''ENOENT'')
      | Some (File s) \<Rightarrow> Inl (Errno ''ENOTDIR'')
      | Some (Dir es) \<Rightarrow>
          (case fs_lookup dir t of
             Some n \<Rightarrow> Inl (Errno ''EEXIST'')
           | None \<Rightarrow>
               (case fs_place dir ensure_dir t of
                  Inl e \<Rightarrow> Inl e
                | Inr t' \<Rightarrow> Inr (dir, t'))))"

definition fs_tar_extract :: "env \<Rightarrow> path \<Rightarrow> path \<Rightarrow> node \<Rightarrow> error + unit \<times> node" where
  "fs_tar_extract env file cwd t =
     (case fs_lookup file t of
        None \<Rightarrow> Inl (Errno ''ENOENT'')
      | Some (Dir es) \<Rightarrow> Inl (Errno ''EISDIR'')
      | Some (File bytes) \<Rightarrow>
          (case fs_lookup cwd t of
             None \<Rightarrow> Inl (Errno ''ENOENT'')
           | Some (File s) \<Rightarrow> Inl (Errno ''ENOTDIR'')
           | Some (Dir es) \<Rightarrow>
               (case untar env bytes (Dir es) of
                  Inl e \<Rightarrow> Inl e
                | Inr d \<Rightarrow>
                    (case fs_place cwd (\<lambda>n. Inr d) t of
                       Inl e \<Rightarrow> Inl e
                     | Inr t' \<Rightarrow> Inr ((), t')))))"

definition fs_tar_create ::
  "env \<Rightarrow> path \<Rightarrow> path \<Rightarrow> (string \<Rightarrow> bool) \<Rightarrow> node \<Rightarrow> error + unit \<times> node" where
  "fs_tar_create env file cwd flt t =
     (case fs_lookup cwd t of
        None \<Rightarrow> Inl (Errno ''ENOENT'')
      | Some d \<Rightarrow>
          (case tar_pack env flt d of
             Inl e \<Rightarrow> Inl e
           | Inr bytes \<Rightarrow> fs_writeFile file bytes t))"

definition op_mkdir :: "env \<Rightarrow> path \<Rightarrow> unit io" where
  "op_mkdir env p = sys env (Mkdir p) (fs_mkdir_p p)"

definition op_readFile :: "env \<Rightarrow> path \<Rightarrow> string io" where
  "op_readFile env p = sys env (ReadFile p) (fs_readFile p)"

definition op_writeFile :: "env \<Rightarrow> path \<Rightarrow> string \<Rightarrow> unit io" where
  "op_writeFile env p s = sys env (WriteFile p) (fs_writeFile p s)"

definition op_readdir :: "env \<Rightarrow> path \<Rightarrow> string list io" where
  "op_readdir env p = sys env (Readdir p) (fs_readdir p)"

definition op_rm :: "env \<Rightarrow> path \<Rightarrow> unit io" where
  "op_rm env p = sys env (Rm p) (fs_rm p)"

definition op_cp :: "env \<Rightarrow> path \<Rightarrow> path \<Rightarrow> unit io" where
  "op_cp env src dst = sys env (Cp src dst) (fs_cp env src dst)"

definition op_mkdtemp :: "env \<Rightarrow> path \<Rightarrow> path io" where
  "op_mkdtemp env pre = sys env (Mkdtemp pre) (fs_mkdtemp env pre)"

definition op_tar_extract :: "env \<Rightarrow> path \<Rightarrow> path \<Rightarrow> unit io" where
  "op_tar_extract env file cwd = sys env (TarExtract file cwd) (fs_tar_extract env file cwd)"

definition op_tar_create :: "env \<Rightarrow> path \<Rightarrow> path \<Rightarrow> (string \<Rightarrow> bool) \<Rightarrow> unit io" where
  "op_tar_create env file cwd flt = sys env (TarCreate file cwd) (fs_tar_create env file cwd flt)"

text \<open>The sinks: \<open>ui.addItem\<close>, \<open>ui.loadHistory\<close> and the chat client's
  \<open>setHistory\<close> append what they are given to their log.\<close>

definition addItem :: "string \<Rightarrow> int \<Rightarrow> unit io" where
  "addItem text ts w = (Inr (), w\<lparr>items := items w @ [(text, ts)]\<rparr>)"

definition call_loadHistory :: "json \<Rightarrow> unit io" where
  "call_loadHistory h w = (Inr (), w\<lparr>ui_history := ui_history w @ [h]\<rparr>)"

definition call_setHistory :: "json \<Rightarrow> unit io" where
  "call_setHistory h w = (Inr (), w\<lparr>client_history := client_history w @ [h]\<rparr>)"

section \<open>What the two command files share\<close>

definition ARCHIVE_METADATA_FILE :: string where
  "ARCHIVE_METADATA_FILE = ''archive-metadata.json''"

definition ARCHIVES_DIR_NAME :: string where
  "ARCHIVES_DIR_NAME = ''archives''"

definition apostrophe :: string where
  "apostrophe = [CHR 0x27]"

definition dquote :: string where
  "dquote = [CHR 0x22]"

definition newline :: string where
  "newline = [CHR 0x0A]"

text \<open>\<open>getArchivesDir\<close>: no directory when the configuration has no project temp
  directory; otherwise \<open>mkdir\<close> with \<open>recursive\<close>, whose exception is not caught
  here.\<close>

definition getArchivesDir :: "env \<Rightarrow> Config \<Rightarrow> path option io" where
  "getArchivesDir env cfg =
     (case projectTempDir cfg of
        None \<Rightarrow> returnE None
      | Some dir \<Rightarrow>
          (let archivesDir = path_join dir ARCHIVES_DIR_NAME in
           bindE (op_mkdir env archivesDir) (\<lambda>u. returnE (Some archivesDir))))"

text \<open>\<open>readArchiveMetadata\<close>: the \<open>try\<close> covers the read and the parse; an error
  whose code is \<open>ENOENT\<close> gives the empty list, any other is thrown again.\<close>

definition readArchiveMetadata :: "env \<Rightarrow> path \<Rightarrow> ArchiveMetadata list io" where
  "readArchiveMetadata env archivesDir =
     (let metadataPath = path_join archivesDir ARCHIVE_METADATA_FILE in
      catchE
        (bindE (op_readFile env metadataPath)
           (\<lambda>data. case parse_metadata env data of Inl e \<Rightarrow> throwE e | Inr md \<Rightarrow> returnE md))
        (\<lambda>e. if error_code e = Some ''ENOENT'' then returnE [] else throwE e))"

definition writeArchiveMetadata :: "env \<Rightarrow> path \<Rightarrow> ArchiveMetadata list \<Rightarrow> unit io" where
  "writeArchiveMetadata env archivesDir metadata =
     (let metadataPath = path_join archivesDir ARCHIVE_METADATA_FILE in
      op_writeFile env metadataPath (stringify_metadata env metadata))"

text \<open>\<open>path.basename(config.getProjectRoot() || 'project')\<close>.\<close>

definition projectName_of :: "Config \<Rightarrow> string" where
  "projectName_of cfg =
     basename (case projectRoot cfg of None \<Rightarrow> [''project''] | Some root \<Rightarrow> root)"

definition is_project_archive :: "string \<Rightarrow> ArchiveMetadata \<Rightarrow> bool" where
  "is_project_archive projectName archive = prefix (projectName @ ''-archive-'') (filename archive)"

text \<open>\<open>xs.sort((a, b) => b.timestamp - a.timestamp)\<close>: a stable sort, newest first.\<close>

definition sort_newest_first :: "ArchiveMetadata list \<Rightarrow> ArchiveMetadata list" where
  "sort_newest_first xs = sort_key (\<lambda>a. - timestamp a) xs"

definition error_message :: "string \<Rightarrow> message" where
  "error_message c = \<lparr>messageType = MError, content = c\<rparr>"

definition info_message :: "string \<Rightarrow> message" where
  "info_message c = \<lparr>messageType = MInfo, content = c\<rparr>"

section \<open>The save command\<close>

text \<open>\<open>[...new Set(xs)]\<close>: the elements of \<open>xs\<close> in the order of their first
  occurrence.\<close>

fun set_spread_from :: "'a list \<Rightarrow> 'a list \<Rightarrow> 'a list" where
  "set_spread_from seen [] = []"
| "set_spread_from seen (x # xs) =
     (if x \<in> set seen then set_spread_from seen xs else x # set_spread_from (seen @ [x]) xs)"

definition set_spread :: "'a list \<Rightarrow> 'a list" where
  "set_spread xs = set_spread_from [] xs"

definition defaultExcludes :: "string list" where
  "defaultExcludes = [''node_modules'', ''.git'', ARCHIVES_DIR_NAME]"

definition allExcludes_of :: "ArchiveMetadata list \<Rightarrow> string list" where
  "allExcludes_of existingMetadata =
     (let previouslySavedArchives = map filename existingMetadata in
      set_spread (defaultExcludes @ previouslySavedArchives))"

text \<open>The \<open>filter\<close> callback given to \<open>tar.create\<close>.\<close>

definition archive_filter :: "string list \<Rightarrow> string \<Rightarrow> bool" where
  "archive_filter allExcludes filePath =
     (let normalizedFilePath = (if prefix ''./'' filePath then drop 2 filePath else filePath) in
      \<not> list_ex (\<lambda>exclude. prefix exclude normalizedFilePath) allExcludes)"

definition formattedTimestamp_of :: "date_fields \<Rightarrow> string" where
  "formattedTimestamp_of now =
     (let year = show_nat (getFullYear now);
          month = padStart2 (show_nat (getMonth now + 1));
          day = padStart2 (show_nat (getDate now));
          hours = padStart2 (show_nat (getHours now));
          minutes = padStart2 (show_nat (getMinutes now));
          seconds = padStart2 (show_nat (getSeconds now))
      in year @ month @ day @ ''-'' @ hours @ minutes @ seconds)"

definition archiveFileName_of :: "env \<Rightarrow> Config \<Rightarrow> string" where
  "archiveFileName_of env cfg =
     projectName_of cfg @ ''-archive-'' @ formattedTimestamp_of (local_time env (date_now env))
       @ ''.tar.gz''"

definition saveAction :: "env \<Rightarrow> CommandContext \<Rightarrow> string \<Rightarrow> message io" where
  "saveAction env ctx args w =
     (case services_config ctx of
        None \<Rightarrow> (Inr (error_message ''Configuration not available.''), w)
      | Some cfg \<Rightarrow>
          (case getArchivesDir env cfg w of
             (Inl e, w1) \<Rightarrow> (Inl e, w1)
           | (Inr None, w1) \<Rightarrow>
               (Inr (error_message ''Could not determine the .gemini directory path.''), w1)
           | (Inr (Some archivesDir), w1) \<Rightarrow>
               (let ts = date_now env;
                    archiveFileName = archiveFileName_of env cfg;
                    archivePath = path_join archivesDir archiveFileName;
                    desc = trim args
                in catchE
                     (bindE (addItem (''Creating archive: '' @ path_str archivePath) ts) (\<lambda>u.
                      bindE (readArchiveMetadata env archivesDir) (\<lambda>existingMetadata.
                      bindE (op_tar_create env archivePath
                               (case projectRoot cfg of None \<Rightarrow> process_cwd env | Some root \<Rightarrow> root)
                               (archive_filter (allExcludes_of existingMetadata))) (\<lambda>u.
                      bindE (writeArchiveMetadata env archivesDir
                               (existingMetadata @
                                  [\<lparr>filename = archiveFileName, timestamp = ts,
                                    description = desc\<rparr>])) (\<lambda>u.
                      bindE (addItem (''Archive created successfully: '' @ path_str archivePath)
                               ts) (\<lambda>u.
                      returnE (info_message
                        (''Archive created at: '' @ path_str archivePath @
                           (if desc \<noteq> []
                            then '' with description: '' @ dquote @ desc @ dquote
                            else [])))))))))
                     (\<lambda>e. returnE (error_message
                        (''An unexpected error occurred: '' @ error_text e)))
                     w1)))"

section \<open>The load command\<close>

definition filesToKeep :: "string list" where
  "filesToKeep = [''.git'', ''node_modules'', ARCHIVES_DIR_NAME]"

text \<open>The two loops of the restore. A name that \<open>readdir\<close> returned is one path
  segment, so \<open>path.join(dir, item)\<close> is \<open>dir @ [item]\<close>.\<close>

fun clear_loop :: "env \<Rightarrow> path \<Rightarrow> string list \<Rightarrow> unit io" where
  "clear_loop env root [] = returnE ()"
| "clear_loop env root (item # rest) =
     (if item \<in> set filesToKeep then clear_loop env root rest
      else bindE (op_rm env (root @ [item])) (\<lambda>u. clear_loop env root rest))"

fun move_loop :: "env \<Rightarrow> path \<Rightarrow> path \<Rightarrow> string list \<Rightarrow> unit io" where
  "move_loop env tempDir root [] = returnE ()"
| "move_loop env tempDir root (item # rest) =
     (let sourcePath = tempDir @ [item];
          destinationPath = root @ [item]
      in bindE (op_cp env sourcePath destinationPath) (\<lambda>u.
         bindE (op_rm env sourcePath) (\<lambda>u.
         move_loop env tempDir root rest)))"

text \<open>Lines 161 to 202: the temporary directory, and the \<open>try\<close> with its
  \<open>finally\<close>.\<close>

definition restore_body :: "env \<Rightarrow> path \<Rightarrow> path \<Rightarrow> string \<Rightarrow> path \<Rightarrow> message io" where
  "restore_body env root filePath selectedFile tempDir =
     bindE (op_tar_extract env filePath tempDir) (\<lambda>u.
     bindE (op_readdir env root) (\<lambda>projectContents.
     bindE (clear_loop env root projectContents) (\<lambda>u.
     bindE (op_readdir env tempDir) (\<lambda>extractedContents.
     bindE (move_loop env tempDir root extractedContents) (\<lambda>u.
     returnE (info_message
       (''Archive '' @ apostrophe @ selectedFile @ apostrophe @
        '' loaded and extracted successfully to '' @ path_str root @ ''.'')))))))"

definition restore_archive :: "env \<Rightarrow> path \<Rightarrow> path \<Rightarrow> string \<Rightarrow> message io" where
  "restore_archive env root filePath selectedFile =
     bindE (op_mkdtemp env (path_join (tmpdir env) ''gemini-cli-load-'')) (\<lambda>tempDir.
     finallyE (restore_body env root filePath selectedFile tempDir) (op_rm env tempDir))"

text \<open>Reading a property of a parsed value: \<open>null\<close> throws a \<open>TypeError\<close>, an
  object gives the field or \<open>undefined\<close>, and a primitive or an array has neither
  \<open>history\<close> nor \<open>clientHistory\<close>. \<open>truthy\<close> is the test of an \<open>if\<close>.\<close>

fun get_prop :: "json \<Rightarrow> string \<Rightarrow> error + json option" where
  "get_prop JNull k = Inl (Thrown ''TypeError: Cannot read properties of null'')"
| "get_prop (JObj kvs) k = Inr (map_of kvs k)"
| "get_prop v k = Inr None"

fun truthy :: "json option \<Rightarrow> bool" where
  "truthy None = False"
| "truthy (Some JNull) = False"
| "truthy (Some (JBool b)) = b"
| "truthy (Some (JNum n)) = (n \<noteq> 0)"
| "truthy (Some (JStr s)) = (s \<noteq> [])"
| "truthy (Some (JArr xs)) = True"
| "truthy (Some (JObj kvs)) = True"

text \<open>Lines 205 to 230: the legacy JSON file. The two \<open>console.log\<close> lines only
  write to the standard output and are left out, but for the read of
  \<open>toolCallData.history\<close> in the second, which is where a \<open>null\<close> value throws. The
  parsed object is a list of fields without repeated keys.\<close>

definition load_legacy :: "env \<Rightarrow> CommandContext \<Rightarrow> Config \<Rightarrow> path \<Rightarrow> string \<Rightarrow> message io" where
  "load_legacy env ctx cfg filePath selectedFile =
     bindE (op_readFile env filePath) (\<lambda>data.
       case parse_json env data of
         Inl e \<Rightarrow> throwE e
       | Inr toolCallData \<Rightarrow>
           (case get_prop toolCallData ''history'' of
              Inl e \<Rightarrow> throwE e
            | Inr history \<Rightarrow>
                if truthy history \<and> \<not> ui_loadHistory ctx
                then returnE (error_message ''loadHistory function is not available.'')
                else
                  bindE (if truthy history then call_loadHistory (the history) else returnE ()) (\<lambda>u.
                    case get_prop toolCallData ''clientHistory'' of
                      Inl e \<Rightarrow> throwE e
                    | Inr clientHistory \<Rightarrow>
                        bindE (if truthy clientHistory \<and> geminiClient cfg
                               then call_setHistory (the clientHistory) else returnE ()) (\<lambda>u.
                        returnE (info_message
                          (''Archive '' @ apostrophe @ selectedFile @ apostrophe @
                           '' loaded successfully.''))))))"

text \<open>Lines 97 to 132: the list of archives.\<close>

definition render_line :: "env \<Rightarrow> ArchiveMetadata \<Rightarrow> string" where
  "render_line env archive =
     ''- '' @ filename archive @ '' (Created: '' @ toLocaleString env (timestamp archive) @ '')'' @
     (if description archive \<noteq> [] then '' - '' @ description archive else []) @ newline"

definition list_archives :: "env \<Rightarrow> Config \<Rightarrow> path \<Rightarrow> message io" where
  "list_archives env cfg archivesDir =
     catchE
       (bindE (readArchiveMetadata env archivesDir) (\<lambda>archives.
          let projectName = projectName_of cfg;
              filteredArchives = filter (is_project_archive projectName) archives
          in if length filteredArchives = 0
             then returnE (info_message ''No saved archives found for the current project.'')
             else returnE (info_message
                    (''Available archives for the current project:'' @ newline @ newline @
                     concat (map (render_line env) (sort_newest_first filteredArchives))))))
       (\<lambda>e. returnE (error_message (''Error loading archives: '' @ error_text e)))"

text \<open>Lines 136 to 238: a file was selected.\<close>

definition force_required_text :: "string \<Rightarrow> path \<Rightarrow> string" where
  "force_required_text selectedFile root =
     ''Loading '' @ apostrophe @ selectedFile @ apostrophe @
     '' will overwrite the contents of your current project directory ('' @
     path_str root @
     ''). This is a destructive operation. To proceed, please run the command again with the '' @
     apostrophe @ ''--force'' @ apostrophe @ '' flag (e.g., /load '' @ selectedFile @
     '' --force).''"

definition load_selected ::
  "env \<Rightarrow> CommandContext \<Rightarrow> Config \<Rightarrow> path \<Rightarrow> string \<Rightarrow> bool \<Rightarrow> message io" where
  "load_selected env ctx cfg archivesDir selectedFile forceConfirm =
     catchE
       (let filePath = path_join archivesDir selectedFile in
        if suffix ''.tar.gz'' selectedFile
        then (case projectRoot cfg of
                None \<Rightarrow> returnE (error_message ''Could not determine the project root path.'')
              | Some root \<Rightarrow>
                  if \<not> forceConfirm
                  then returnE (error_message (force_required_text selectedFile root))
                  else restore_archive env root filePath selectedFile)
        else load_legacy env ctx cfg filePath selectedFile)
       (\<lambda>e. returnE (error_message
          (''Error loading archive '' @ selectedFile @ '': '' @ error_text e)))"

definition parse_args :: "string \<Rightarrow> string \<times> bool" where
  "parse_args args =
     (let parts = filter (\<lambda>s. s \<noteq> []) (split_on (CHR '' '') args);
          selectedFile = (case parts of [] \<Rightarrow> [] | p # ps \<Rightarrow> p);
          forceConfirm = (''--force'' \<in> set parts)
      in (if prefix ''--'' selectedFile then [] else selectedFile, forceConfirm))"

definition loadAction :: "env \<Rightarrow> CommandContext \<Rightarrow> string \<Rightarrow> message io" where
  "loadAction env ctx args w =
     (case services_config ctx of
        None \<Rightarrow> (Inr (error_message ''Configuration not available.''), w)
      | Some cfg \<Rightarrow>
          (case getArchivesDir env cfg w of
             (Inl e, w1) \<Rightarrow> (Inl e, w1)
           | (Inr None, w1) \<Rightarrow>
               (Inr (error_message ''Could not determine the .gemini directory path.''), w1)
           | (Inr (Some archivesDir), w1) \<Rightarrow>
               (case parse_args args of
                  (selectedFile, forceConfirm) \<Rightarrow>
                    if selectedFile = [] then list_archives env cfg archivesDir w1
                    else load_selected env ctx cfg archivesDir selectedFile forceConfirm w1)))"

definition to_candidate :: "ArchiveMetadata \<Rightarrow> CompletionCandidate" where
  "to_candidate archive =
     \<lparr>cand_label = filename archive, cand_value = filename archive,
      cand_description = description archive\<rparr>"

definition completion :: "env \<Rightarrow> CommandContext \<Rightarrow> string \<Rightarrow> CompletionCandidate list io" where
  "completion env ctx partialArg w =
     (case services_config ctx of
        None \<Rightarrow> (Inr [], w)
      | Some cfg \<Rightarrow>
          (case getArchivesDir env cfg w of
             (Inl e, w1) \<Rightarrow> (Inl e, w1)
           | (Inr None, w1) \<Rightarrow> (Inr [], w1)
           | (Inr (Some archivesDir), w1) \<Rightarrow>
               catchE
                 (bindE (readArchiveMetadata env archivesDir) (\<lambda>archives.
                    let projectName = projectName_of cfg;
                        filteredArchives = filter (is_project_archive projectName) archives
                    in returnE (map to_candidate (sort_newest_first filteredArchives))))
                 (\<lambda>e. returnE [])
                 w1))"

section \<open>Predicates of the statements\<close>

text \<open>The file name pattern \<open><project>-archive-YYYYMMDD-HHMMSS.tar.gz\<close>: the project
  name, then eight digits, a dash, six digits and the extension.\<close>

definition is_digit :: "char \<Rightarrow> bool" where
  "is_digit c = (c \<in> set digits)"

definition archive_name_ok :: "string \<Rightarrow> string \<Rightarrow> bool" where
  "archive_name_ok project name =
     (let rest = drop (length project + 9) name in
      take (length project + 9) name = project @ ''-archive-'' \<and>
      length rest = 22 \<and>
      list_all is_digit (take 8 rest) \<and>
      take 1 (drop 8 rest) = ''-'' \<and>
      list_all is_digit (take 6 (drop 9 rest)) \<and>
      drop 15 rest = ''.tar.gz'')"

text \<open>The fields of a local time whose year has four digits.\<close>

definition four_digit_year :: "date_fields \<Rightarrow> bool" where
  "four_digit_year d =
     (1000 \<le> getFullYear d \<and> getFullYear d \<le> 9999 \<and> getMonth d \<le> 11 \<and>
      1 \<le> getDate d \<and> getDate d \<le> 31 \<and> getHours d \<le> 23 \<and> getMinutes d \<le> 59 \<and>
      getSeconds d \<le> 59)"

text \<open>The time stamp as the statement has it: every field written out digit by digit,
  four digits for the year and two for each other field, the month counted from one.\<close>

definition two_digits :: "nat \<Rightarrow> string" where
  "two_digits n = [''0123456789'' ! (n div 10 mod 10), ''0123456789'' ! (n mod 10)]"

definition four_digits :: "nat \<Rightarrow> string" where
  "four_digits n =
     [''0123456789'' ! (n div 1000 mod 10), ''0123456789'' ! (n div 100 mod 10),
      ''0123456789'' ! (n div 10 mod 10), ''0123456789'' ! (n mod 10)]"

definition clock_stamp :: "date_fields \<Rightarrow> string" where
  "clock_stamp d =
     four_digits (getFullYear d) @ two_digits (getMonth d + 1) @ two_digits (getDate d) @ ''-'' @
     two_digits (getHours d) @ two_digits (getMinutes d) @ two_digits (getSeconds d)"

definition contains :: "string \<Rightarrow> string \<Rightarrow> bool" where
  "contains s part = (\<exists>before after. s = before @ part @ after)"

definition newest_first :: "ArchiveMetadata list \<Rightarrow> bool" where
  "newest_first xs = sorted_wrt (\<lambda>a b. timestamp b \<le> timestamp a) xs"

definition strictly_newest_first :: "ArchiveMetadata list \<Rightarrow> bool" where
  "strictly_newest_first xs = sorted_wrt (\<lambda>a b. timestamp b < timestamp a) xs"

section \<open>Example worlds\<close>

text \<open>A project at \<open>/mock/path/test-project\<close> whose temp directory is
  \<open>/mock/tmp/project-temp\<close>, with \<open>os.tmpdir()\<close> at \<open>/mock/tmp\<close>, a clock fixed at
  2025-01-01T12:00:00 local time, and toy codecs.\<close>

definition example_records :: "ArchiveMetadata list" where
  "example_records =
     [\<lparr>filename = ''test-project-archive-1.tar.gz'', timestamp = 1678886400000,
       description = ''Old backup''\<rparr>,
      \<lparr>filename = ''test-project-archive-3.tar.gz'', timestamp = 1678972800000,
       description = ''Newest backup''\<rparr>,
      \<lparr>filename = ''other-archive-9.tar.gz'', timestamp = 1678999900000,
       description = ''Elsewhere''\<rparr>,
      \<lparr>filename = ''test-project-archive-2.tar.gz'', timestamp = 1678929600000,
       description = []\<rparr>]"

definition tied_records :: "ArchiveMetadata list" where
  "tied_records =
     [\<lparr>filename = ''test-project-archive-a.tar.gz'', timestamp = 1678886400000,
       description = []\<rparr>,
      \<lparr>filename = ''test-project-archive-b.tar.gz'', timestamp = 1678886400000,
       description = []\<rparr>]"

definition example_env :: env where
  "example_env =
     \<lparr>denied = (\<lambda>c. None),
      untar = (\<lambda>bytes dir. if bytes = ''TAR''
                 then Inr (Dir [(''extracted_file.txt'', File ''new''), (''extracted_dir'', Dir [])])
                 else Inl (Thrown ''TAR_BAD_ARCHIVE'')),
      tar_pack = (\<lambda>flt dir. Inr ''TAR''),
      cp_merge = (\<lambda>src dst. Inr src),
      parse_metadata = (\<lambda>s. if s = ''[]'' then Inr []
                 else if s = ''[4 records]'' then Inr example_records
                 else if s = ''[2 tied records]'' then Inr tied_records
                 else Inl (Thrown ''SyntaxError'')),
      stringify_metadata = (\<lambda>md. concat (map (\<lambda>a. filename a @ ''|'' @ description a @ '';'') md)),
      parse_json = (\<lambda>s. if s = ''{history}'' then Inr (JObj [(''history'', JArr [JStr ''Hello''])])
                 else if s = ''{history:null}'' then Inr (JObj [(''history'', JNull)])
                 else Inl (Thrown ''SyntaxError'')),
      toLocaleString = (\<lambda>t. ''date''),
      local_time = (\<lambda>t. \<lparr>getFullYear = 2025, getMonth = 0, getDate = 1,
                           getHours = 12, getMinutes = 0, getSeconds = 0\<rparr>),
      date_now = 1735732800000,
      tmpdir = [''mock'', ''tmp''],
      mkdtemp_suffix = ''temp123'',
      process_cwd = [''mock'', ''path'', ''test-project'']\<rparr>"

definition example_config :: Config where
  "example_config =
     \<lparr>projectTempDir = Some [''mock'', ''tmp'', ''project-temp''],
      projectRoot = Some [''mock'', ''path'', ''test-project''],
      geminiClient = True\<rparr>"

definition example_context :: CommandContext where
  "example_context = \<lparr>services_config = Some example_config, ui_loadHistory = True\<rparr>"

definition example_archives :: "string \<Rightarrow> node" where
  "example_archives metadata =
     Dir [(''archive-metadata.json'', File metadata),
          (''selected.tar.gz'', File ''TAR''),
          (''legacy.json'', File ''{history}''),
          (''null.json'', File ''{history:null}'')]"

definition example_project :: node where
  "example_project = Dir [(''file1.txt'', File ''old''), (''dir1'', Dir []), (''.git'', Dir [])]"

definition example_fs :: "(string \<times> node) list \<Rightarrow> node" where
  "example_fs project_temp =
     Dir [(''mock'',
       Dir [(''tmp'', Dir [(''project-temp'', Dir project_temp)]),
            (''path'', Dir [(''test-project'', example_project)]),
            (''secret.json'', File ''{history}'')])]"

definition world_of :: "node \<Rightarrow> world" where
  "world_of t = \<lparr>fs = t, trace = [], ui_history = [], client_history = [], items = []\<rparr>"

text \<open>The archives directory holds an empty metadata file, four records, or two records
  of one time stamp; it does not exist yet; a regular file stands in its place.\<close>

definition example_world :: world where
  "example_world = world_of (example_fs [(''archives'', example_archives ''[]'')])"

definition listed_world :: world where
  "listed_world = world_of (example_fs [(''archives'', example_archives ''[4 records]'')])"

definition tied_world :: world where
  "tied_world = world_of (example_fs [(''archives'', example_archives ''[2 tied records]'')])"

definition fresh_world :: world where
  "fresh_world = world_of (example_fs [])"

definition blocked_world :: world where
  "blocked_world = world_of (example_fs [(''archives'', File ''not a directory'')])"

text \<open>An operating system that refuses to remove the temporary directory.\<close>

definition stubborn_env :: env where
  "stubborn_env =
     example_env\<lparr>denied := (\<lambda>c. if c = Rm [''mock'', ''tmp'', ''gemini-cli-load-temp123'']
                                 then Some (Errno ''EACCES'') else None)\<rparr>"

text \<open>A clock in the year 10000.\<close>

definition future_env :: env where
  "future_env =
     example_env\<lparr>local_time := (\<lambda>t. \<lparr>getFullYear = 10000, getMonth = 0, getDate = 1,
                                         getHours = 12, getMinutes = 0, getSeconds = 0\<rparr>)\<rparr>"

section \<open>Properties\<close>

lemmas io_defs = returnE_def throwE_def bindE_def catchE_def finallyE_def sys_def
  op_mkdir_def op_readFile_def op_writeFile_def op_readdir_def op_rm_def op_cp_def
  op_mkdtemp_def op_tar_extract_def op_tar_create_def addItem_def call_loadHistory_def
  call_setHistory_def
lemmas fs_defs = fs_mkdir_p_def fs_readFile_def fs_writeFile_def fs_readdir_def fs_rm_def
  fs_cp_def fs_mkdtemp_def fs_tar_extract_def fs_tar_create_def ensure_dir_def put_file_def
  copy_onto_def temp_dir_of_def entry_names_def
lemmas handler_defs = loadAction_def saveAction_def completion_def getArchivesDir_def
  readArchiveMetadata_def writeArchiveMetadata_def list_archives_def load_selected_def
  load_legacy_def restore_archive_def restore_body_def parse_args_def path_join_def
  projectName_of_def basename_def is_project_archive_def sort_newest_first_def
  error_message_def info_message_def render_line_def force_required_text_def path_str_def
  ARCHIVES_DIR_NAME_def ARCHIVE_METADATA_FILE_def filesToKeep_def apostrophe_def dquote_def
  newline_def to_candidate_def archiveFileName_of_def formattedTimestamp_of_def padStart2_def
  trim_def is_space_def allExcludes_of_def defaultExcludes_def set_spread_def archive_filter_def
lemmas example_defs = example_env_def example_config_def example_context_def example_fs_def
  example_world_def example_records_def tied_records_def example_archives_def example_project_def
  world_of_def listed_world_def tied_world_def fresh_world_def blocked_world_def stubborn_env_def
  future_env_def


lemma loadAction_resolved:
  assumes "services_config ctx = Some cfg"
      and "fst (getArchivesDir env cfg w) = Inr (Some archivesDir)"
  shows "loadAction env ctx args w =
     (if fst (parse_args args) = []
      then list_archives env cfg archivesDir (snd (getArchivesDir env cfg w))
      else load_selected env ctx cfg archivesDir (fst (parse_args args)) (snd (parse_args args))
             (snd (getArchivesDir env cfg w)))"
  using assms by (cases "getArchivesDir env cfg w") (auto simp: loadAction_def split: prod.splits)

lemma completion_resolved:
  assumes "services_config ctx = Some cfg"
      and "fst (getArchivesDir env cfg w) = Inr (Some archivesDir)"
  shows "completion env ctx partialArg w =
     catchE
       (bindE (readArchiveMetadata env archivesDir) (\<lambda>archives.
          returnE (map to_candidate
            (sort_newest_first (filter (is_project_archive (projectName_of cfg)) archives)))))
       (\<lambda>e. returnE [])
       (snd (getArchivesDir env cfg w))"
  using assms by (cases "getArchivesDir env cfg w") (auto simp: completion_def Let_def)

lemma getArchivesDir_mkdir:
  assumes "projectTempDir cfg = Some dir"
      and "denied env (Mkdir (path_join dir ARCHIVES_DIR_NAME)) = None"
      and "fs_mkdir_p (path_join dir ARCHIVES_DIR_NAME) (fs w) = Inr ((), t)"
  shows "getArchivesDir env cfg w =
           (Inr (Some (path_join dir ARCHIVES_DIR_NAME)),
            w\<lparr>trace := trace w @ [Mkdir (path_join dir ARCHIVES_DIR_NAME)], fs := t\<rparr>)"
  using assms by (simp add: getArchivesDir_def Let_def bindE_def returnE_def op_mkdir_def sys_def)

lemma fs_place_existing_dir:
  "fs_lookup p t = Some (Dir es) \<Longrightarrow> fs_place p ensure_dir t = Inr t"
proof (induction p arbitrary: t)
  case Nil
  then show ?case by (simp add: ensure_dir_def)
next
  case (Cons x p)
  show ?case
  proof (cases t)
    case (File s)
    with Cons.prems show ?thesis by simp
  next
    case (Dir ds)
    with Cons.prems obtain c where c: "map_of ds x = Some c" "fs_lookup p c = Some (Dir es)"
      by (auto split: option.splits)
    from Cons.IH[OF c(2)] c(1) Dir show ?thesis
      by (simp add: AList.update_triv)
  qed
qed

lemma list_archives_none:
  assumes "fst (readArchiveMetadata env archivesDir w1) = Inr archives"
      and "filter (is_project_archive (projectName_of cfg)) archives = []"
  shows "fst (list_archives env cfg archivesDir w1) =
           Inr \<lparr>messageType = MInfo, content = ''No saved archives found for the current project.''\<rparr>"
  using assms
  by (cases "readArchiveMetadata env archivesDir w1")
     (simp add: list_archives_def catchE_def bindE_def returnE_def info_message_def Let_def)

text \<open>
  C8. When the metadata store holds no record of the current project (the archives
  directory resolves, the store is read, and no file name starts with
  \<open><projectBaseName>-archive-\<close>), the list mode of the load command returns the
  informational message \<open>No saved archives found for the current project.\<close> and the
  completion provider returns the empty list.
\<close>

theorem C8_no_archives:
  assumes "services_config ctx = Some cfg"
      and "fst (getArchivesDir env cfg w) = Inr (Some archivesDir)"
      and "fst (readArchiveMetadata env archivesDir (snd (getArchivesDir env cfg w))) = Inr archives"
      and "filter (is_project_archive (projectName_of cfg)) archives = []"
      and "fst (parse_args args) = []"
  shows "fst (loadAction env ctx args w) =
           Inr \<lparr>messageType = MInfo, content = ''No saved archives found for the current project.''\<rparr>
         \<and> fst (completion env ctx partialArg w) = Inr []"
proof -
  have "fst (loadAction env ctx args w) =
           Inr \<lparr>messageType = MInfo, content = ''No saved archives found for the current project.''\<rparr>"
    using loadAction_resolved[OF assms(1,2)] list_archives_none[OF assms(3,4)] assms(5) by simp
  moreover have "fst (completion env ctx partialArg w) = Inr []"
    using assms(3,4)
    by (cases "readArchiveMetadata env archivesDir (snd (getArchivesDir env cfg w))")
       (simp add: completion_resolved[OF assms(1,2)] catchE_def bindE_def returnE_def
          sort_newest_first_def)
  ultimately show ?thesis by simp
qed

lemma example_getArchivesDir:
  "getArchivesDir example_env example_config example_world =
     (Inr (Some [''mock'', ''tmp'', ''project-temp'', ''archives'']),
      example_world\<lparr>trace := [Mkdir [''mock'', ''tmp'', ''project-temp'', ''archives'']]\<rparr>)"
  by (simp add: handler_defs io_defs fs_defs example_defs Let_def)

text \<open>The statement of C8 at the example world, whose metadata file holds no record.\<close>

theorem C8_witness:
  "fst (loadAction example_env example_context [] example_world) =
     Inr \<lparr>messageType = MInfo, content = ''No saved archives found for the current project.''\<rparr>
   \<and> fst (completion example_env example_context [] example_world) = Inr []"
proof -
  have h1: "services_config example_context = Some example_config"
    by (simp add: example_context_def)
  have h2: "fst (getArchivesDir example_env example_config example_world) =
      Inr (Some [''mock'', ''tmp'', ''project-temp'', ''archives''])"
    by (simp add: example_getArchivesDir)
  have h3: "fst (readArchiveMetadata example_env [''mock'', ''tmp'', ''project-temp'', ''archives'']
      (snd (getArchivesDir example_env example_config example_world))) = Inr []"
    unfolding example_getArchivesDir
    by (simp add: handler_defs io_defs fs_defs example_defs Let_def)
  have h4: "filter (is_project_archive (projectName_of example_config)) [] = []" by simp
  have h5: "fst (parse_args []) = []" by (simp add: parse_args_def)
  show ?thesis using C8_no_archives[OF h1 h2 h3 h4 h5] by simp
qed

text \<open>
  C2, as amended. A restore of a \<open>.tar.gz\<close> file without \<open>--force\<close>, with the
  configuration, the archives directory and the project root resolved, makes one call,
  the \<open>mkdir\<close> of the archives directory: the file system afterwards is the one that
  \<open>mkdir\<close> leaves, which is the file system before when the directory exists already.
  The result is the error message that holds \<open>/load <filename> --force\<close>.
\<close>

theorem C2_restore_without_force:
  assumes "services_config ctx = Some cfg"
      and "projectTempDir cfg = Some dir"
      and "projectRoot cfg = Some root"
      and "parse_args args = (selectedFile, False)"
      and "suffix ''.tar.gz'' selectedFile"
      and "denied env (Mkdir (path_join dir ARCHIVES_DIR_NAME)) = None"
      and "fs_mkdir_p (path_join dir ARCHIVES_DIR_NAME) (fs w) = Inr ((), t)"
  shows "loadAction env ctx args w =
           (Inr \<lparr>messageType = MError, content = force_required_text selectedFile root\<rparr>,
            w\<lparr>trace := trace w @ [Mkdir (path_join dir ARCHIVES_DIR_NAME)], fs := t\<rparr>)
         \<and> contains (force_required_text selectedFile root) (''/load '' @ selectedFile @ '' --force'')
         \<and> (\<forall>es. fs_lookup (path_join dir ARCHIVES_DIR_NAME) (fs w) = Some (Dir es) \<longrightarrow> t = fs w)"
proof -
  note g = getArchivesDir_mkdir[OF assms(2,6,7)]
  have ne: "selectedFile \<noteq> []" using assms(5) by (auto simp: suffix_def)
  have 1: "loadAction env ctx args w =
           (Inr \<lparr>messageType = MError, content = force_required_text selectedFile root\<rparr>,
            w\<lparr>trace := trace w @ [Mkdir (path_join dir ARCHIVES_DIR_NAME)], fs := t\<rparr>)"
    using assms(3,4,5) ne
    by (simp add: loadAction_resolved[OF assms(1), of env w "path_join dir ARCHIVES_DIR_NAME"] g
          load_selected_def catchE_def returnE_def error_message_def Let_def)
  have 2: "contains (force_required_text selectedFile root) (''/load '' @ selectedFile @ '' --force'')"
    unfolding contains_def force_required_text_def
    by (rule exI[where x = "''Loading '' @ apostrophe @ selectedFile @ apostrophe @
     '' will overwrite the contents of your current project directory ('' @
     path_str root @
     ''). This is a destructive operation. To proceed, please run the command again with the '' @
     apostrophe @ ''--force'' @ apostrophe @ '' flag (e.g., ''"], rule exI[where x = "'').''"]) simp
  have 3: "\<forall>es. fs_lookup (path_join dir ARCHIVES_DIR_NAME) (fs w) = Some (Dir es) \<longrightarrow> t = fs w"
    using assms(7) by (auto simp: fs_mkdir_p_def dest: fs_place_existing_dir)
  from 1 2 3 show ?thesis by blast
qed


lemma example_suffix: "suffix ''.tar.gz'' ''selected.tar.gz''"
  by (simp add: suffix_to_prefix)

text \<open>The amended C2 at the example world: the archives directory exists, and the file
  system is left as it was.\<close>

theorem C2_witness:
  "loadAction example_env example_context ''selected.tar.gz'' example_world =
     (Inr \<lparr>messageType = MError,
           content = force_required_text ''selected.tar.gz'' [''mock'', ''path'', ''test-project'']\<rparr>,
      example_world\<lparr>trace := [Mkdir [''mock'', ''tmp'', ''project-temp'', ''archives'']]\<rparr>)
   \<and> contains (force_required_text ''selected.tar.gz'' [''mock'', ''path'', ''test-project''])
        ''/load selected.tar.gz --force''"
proof -
  have h1: "services_config example_context = Some example_config"
    by (simp add: example_context_def)
  have h2: "projectTempDir example_config = Some [''mock'', ''tmp'', ''project-temp'']"
    by (simp add: example_config_def)
  have h3: "projectRoot example_config = Some [''mock'', ''path'', ''test-project'']"
    by (simp add: example_config_def)
  have h4: "parse_args ''selected.tar.gz'' = (''selected.tar.gz'', False)"
    by (simp add: parse_args_def)
  have h6: "denied example_env (Mkdir (path_join [''mock'', ''tmp'', ''project-temp''] ARCHIVES_DIR_NAME)) = None"
    by (simp add: example_env_def)
  have h7: "fs_mkdir_p (path_join [''mock'', ''tmp'', ''project-temp''] ARCHIVES_DIR_NAME) (fs example_world)
      = Inr ((), fs example_world)"
    by (simp add: handler_defs fs_defs example_defs)
  have pj: "path_join [''mock'', ''tmp'', ''project-temp''] ARCHIVES_DIR_NAME = [''mock'', ''tmp'', ''project-temp'', ''archives'']"
    by (simp add: path_join_def ARCHIVES_DIR_NAME_def)
  show ?thesis
    using C2_restore_without_force[OF h1 h2 h3 h4 example_suffix h6 h7]
    by (simp add: pj example_world_def world_of_def)
qed

text \<open>C2 as stated fails where the archives directory does not exist yet: the restore
  without \<open>--force\<close> returns its error message and has created the directory.\<close>

theorem C2_counterexample:
  "fst (loadAction example_env example_context ''selected.tar.gz'' fresh_world) =
     Inr \<lparr>messageType = MError,
          content = force_required_text ''selected.tar.gz'' [''mock'', ''path'', ''test-project'']\<rparr>
   \<and> fs_lookup [''mock'', ''tmp'', ''project-temp'', ''archives''] (fs fresh_world) = None
   \<and> fs_lookup [''mock'', ''tmp'', ''project-temp'', ''archives'']
        (fs (snd (loadAction example_env example_context ''selected.tar.gz'' fresh_world)))
      = Some (Dir [])
   \<and> fs (snd (loadAction example_env example_context ''selected.tar.gz'' fresh_world)) \<noteq> fs fresh_world"
proof -
  have run: "loadAction example_env example_context ''selected.tar.gz'' fresh_world =
     (Inr \<lparr>messageType = MError,
          content = force_required_text ''selected.tar.gz'' [''mock'', ''path'', ''test-project'']\<rparr>,
      \<lparr>fs = example_fs [(''archives'', Dir [])],
       trace = [Mkdir [''mock'', ''tmp'', ''project-temp'', ''archives'']],
       ui_history = [], client_history = [], items = []\<rparr>)"
    by (simp add: loadAction_def getArchivesDir_def load_selected_def parse_args_def path_join_def
        error_message_def ARCHIVES_DIR_NAME_def io_defs fs_defs example_defs Let_def suffix_to_prefix)
  show ?thesis
    unfolding run by (simp add: fresh_world_def world_of_def example_fs_def)
qed

subsection \<open>An exception that leaves the handlers\<close>

text \<open>
  C3. Both handlers await \<open>getArchivesDir\<close> before their \<open>try\<close>. Where a regular file
  stands at the path of the archives directory, \<open>mkdir\<close> throws \<open>EEXIST\<close>, and the
  exception leaves \<open>loadAction\<close> (list mode and restore mode) and \<open>saveAction\<close>: no
  message is returned.
\<close>

theorem C3_mkdir_failure_escapes:
  "fst (loadAction example_env example_context [] blocked_world) = Inl (Errno ''EEXIST'')
   \<and> fst (loadAction example_env example_context ''selected.tar.gz --force'' blocked_world)
       = Inl (Errno ''EEXIST'')
   \<and> fst (saveAction example_env example_context ''my important backup'' blocked_world)
       = Inl (Errno ''EEXIST'')"
  by (simp add: loadAction_def saveAction_def getArchivesDir_def path_join_def
      ARCHIVES_DIR_NAME_def io_defs fs_defs example_defs Let_def)

text \<open>
  C4. The completion provider awaits \<open>getArchivesDir\<close> before its \<open>try\<close> as well: in
  the same world the exception of \<open>mkdir\<close> reaches the caller, and no list is returned.
\<close>

theorem C4_mkdir_failure_escapes:
  "fst (completion example_env example_context [] blocked_world) = Inl (Errno ''EEXIST'')"
  by (simp add: completion_def getArchivesDir_def path_join_def
      ARCHIVES_DIR_NAME_def io_defs fs_defs example_defs Let_def)


subsection \<open>The exclusion set and the filter of the save command\<close>

lemma set_spread_from_set: "set (set_spread_from seen xs) = set xs - set seen"
  by (induction xs arbitrary: seen) auto

lemma set_spread_from_distinct: "distinct (set_spread_from seen xs)"
  by (induction xs arbitrary: seen) (auto simp: set_spread_from_set)

lemma set_allExcludes:
  "set (allExcludes_of md) = {''node_modules'', ''.git'', ''archives''} \<union> filename ` set md"
  by (auto simp: allExcludes_of_def set_spread_def set_spread_from_set defaultExcludes_def
      ARCHIVES_DIR_NAME_def)

lemma archives_excluded: "''archives'' \<in> set (allExcludes_of md)"
  by (simp add: set_allExcludes)

text \<open>
  C6. The exclusion list of the save command has no duplicates and holds exactly
  \<open>node_modules\<close>, \<open>.git\<close>, \<open>archives\<close> and the file names of the metadata records. The
  filter keeps a path exactly when, after a leading \<open>./\<close> is dropped, no excluded name is a
  string prefix of it; so \<open>archives2/\<close>, a sibling of \<open>archives\<close>, is left out as well.
\<close>

theorem C6_exclusion_filter:
  "set (allExcludes_of md) = {''node_modules'', ''.git'', ''archives''} \<union> filename ` set md
   \<and> distinct (allExcludes_of md)
   \<and> (archive_filter (allExcludes_of md) p
        \<longleftrightarrow> \<not> (\<exists>e \<in> set (allExcludes_of md).
                 prefix e (if prefix ''./'' p then drop 2 p else p)))
   \<and> \<not> archive_filter (allExcludes_of md) ''./archives2/''
   \<and> \<not> archive_filter (allExcludes_of md) ''archives2/''"
proof -
  have a: "''archives'' \<in> set (allExcludes_of md)" by (rule archives_excluded)
  have f: "\<And>q. archive_filter (allExcludes_of md) q
        \<longleftrightarrow> \<not> (\<exists>e \<in> set (allExcludes_of md). prefix e (if prefix ''./'' q then drop 2 q else q))"
    by (simp add: archive_filter_def list_ex_iff Let_def)
  have s1: "\<not> archive_filter (allExcludes_of md) ''./archives2/''"
    unfolding f using a by (auto intro!: bexI[where x="''archives''"])
  have s2: "\<not> archive_filter (allExcludes_of md) ''archives2/''"
    unfolding f using a by (auto intro!: bexI[where x="''archives''"])
  show ?thesis
    using set_allExcludes f s1 s2
    by (simp add: allExcludes_of_def set_spread_def set_spread_from_distinct)
qed

subsection \<open>Reading a successful run backwards\<close>

lemma bindE_Inr:
  assumes "bindE m f w = (Inr y, w')"
  obtains x w1 where "m w = (Inr x, w1)" and "f x w1 = (Inr y, w')"
  using assms by (auto simp: bindE_def split: prod.splits sum.splits)

lemma catchE_Inr:
  assumes "catchE m h w = (Inr y, w')"
  obtains "m w = (Inr y, w')" | e w1 where "m w = (Inl e, w1)" and "h e w1 = (Inr y, w')"
  using assms by (auto simp: catchE_def split: prod.splits sum.splits)

lemma sys_Inr:
  assumes "sys env c act w = (Inr x, w')"
  obtains t where "denied env c = None" and "act (fs w) = Inr (x, t)"
    and "w' = w\<lparr>trace := trace w @ [c], fs := t\<rparr>"
  using assms by (auto simp: sys_def Let_def split: option.splits sum.splits prod.splits)

lemma fs_lookup_place_new: "fs_lookup p (place_new p c) = Some c"
  by (induction p) auto

lemma fs_place_at:
  "fs_place p f t = Inr t' \<Longrightarrow> \<exists>x. f (fs_lookup p t) = Inr x \<and> fs_lookup p t' = Some x"
proof (induction p arbitrary: t t')
  case Nil
  then show ?case by simp
next
  case (Cons a p)
  show ?case
  proof (cases t)
    case (File s)
    with Cons.prems show ?thesis by simp
  next
    case (Dir es)
    show ?thesis
    proof (cases "map_of es a")
      case None
      with Cons.prems Dir obtain c where "f None = Inr c"
        and "t' = Dir (AList.update a (place_new p c) es)"
        by (auto split: sum.splits)
      with None Dir show ?thesis
        by (simp add: AList.update_conv' fs_lookup_place_new)
    next
      case (Some d)
      with Cons.prems Dir obtain d' where d': "fs_place p f d = Inr d'"
        and "t' = Dir (AList.update a d' es)"
        by (auto split: sum.splits)
      with Cons.IH[OF d'] Some Dir show ?thesis
        by (simp add: AList.update_conv')
    qed
  qed
qed

lemma fs_writeFile_stored:
  "fs_writeFile p s t = Inr ((), t') \<Longrightarrow> fs_lookup p t' = Some (File s)"
  by (auto simp: fs_writeFile_def put_file_def split: if_splits option.splits node.splits sum.splits
      dest!: fs_place_at)

subsection \<open>The archive name and the stored description\<close>

lemma show_nat_small: "n < 10 \<Longrightarrow> show_nat n = [digits ! n]"
  by (simp add: show_nat.simps)

lemma show_nat_step: "10 \<le> n \<Longrightarrow> show_nat n = show_nat (n div 10) @ [digits ! (n mod 10)]"
  by (simp add: show_nat.simps[of n])

lemma digit_is_digit: "n < 10 \<Longrightarrow> is_digit (digits ! n)"
  unfolding is_digit_def by (rule nth_mem) (simp add: digits_def)

lemma show_nat_digits: "list_all is_digit (show_nat n)"
proof (induction n rule: show_nat.induct)
  case (1 n)
  show ?case
  proof (cases "n < 10")
    case True
    then show ?thesis by (simp add: show_nat_small digit_is_digit)
  next
    case False
    with 1 show ?thesis by (simp add: show_nat_step digit_is_digit)
  qed
qed

lemma length_show_nat_1: "n < 10 \<Longrightarrow> length (show_nat n) = 1"
  by (simp add: show_nat_small)

lemma length_show_nat_2: "10 \<le> n \<Longrightarrow> n < 100 \<Longrightarrow> length (show_nat n) = 2"
  by (simp add: show_nat_step length_show_nat_1)

lemma length_show_nat_3:
  assumes "100 \<le> n" and "n < 1000"
  shows "length (show_nat n) = 3"
proof -
  have "10 \<le> n div 10" and "n div 10 < 100" using assms by simp_all
  then have "length (show_nat (n div 10)) = 2" by (rule length_show_nat_2)
  then show ?thesis using assms by (simp add: show_nat_step[of n])
qed

lemma length_show_nat_4:
  assumes "1000 \<le> n" and "n \<le> 9999"
  shows "length (show_nat n) = 4"
proof -
  have "100 \<le> n div 10" and "n div 10 < 1000" using assms by simp_all
  then have "length (show_nat (n div 10)) = 3" by (rule length_show_nat_3)
  then show ?thesis using assms by (simp add: show_nat_step[of n])
qed

lemma length_padStart2: "n < 100 \<Longrightarrow> length (padStart2 (show_nat n)) = 2"
  by (cases "n < 10") (simp_all add: padStart2_def length_show_nat_1 length_show_nat_2)

lemma zero_is_digit: "is_digit (CHR ''0'')"
  by (simp add: is_digit_def digits_def)

lemma padStart2_digits: "list_all is_digit (padStart2 (show_nat n))"
  using show_nat_digits[of n] by (auto simp: padStart2_def list_all_iff zero_is_digit)

lemma archive_name_okI:
  assumes "length ds = 8" and "length ts = 6" and "list_all is_digit ds" and "list_all is_digit ts"
  shows "archive_name_ok p (p @ ''-archive-'' @ ds @ ''-'' @ ts @ ''.tar.gz'')"
  using assms by (simp add: archive_name_ok_def Let_def)

lemma archiveFileName_ok:
  assumes "four_digit_year (local_time env (date_now env))"
  shows "archive_name_ok (projectName_of cfg) (archiveFileName_of env cfg)"
proof -
  define d where "d = local_time env (date_now env)"
  define ds where "ds = show_nat (getFullYear d) @ padStart2 (show_nat (getMonth d + 1))
     @ padStart2 (show_nat (getDate d))"
  define ts where "ts = padStart2 (show_nat (getHours d)) @ padStart2 (show_nat (getMinutes d))
     @ padStart2 (show_nat (getSeconds d))"
  from assms have v: "1000 \<le> getFullYear d" "getFullYear d \<le> 9999" "getMonth d + 1 < 100"
    "getDate d < 100" "getHours d < 100" "getMinutes d < 100" "getSeconds d < 100"
    by (simp_all add: four_digit_year_def d_def)
  have l8: "length ds = 8"
    using v by (simp add: ds_def length_show_nat_4 length_padStart2)
  have l6: "length ts = 6"
    using v by (simp add: ts_def length_padStart2)
  have d8: "list_all is_digit ds"
    by (simp add: ds_def show_nat_digits padStart2_digits)
  have d6: "list_all is_digit ts"
    by (simp add: ts_def padStart2_digits)
  have "archiveFileName_of env cfg = projectName_of cfg @ ''-archive-'' @ ds @ ''-'' @ ts @ ''.tar.gz''"
    by (simp add: archiveFileName_of_def formattedTimestamp_of_def Let_def ds_def ts_def d_def)
  with archive_name_okI[OF l8 l6 d8 d6] show ?thesis by simp
qed

lemma padStart2_two_digits: "n < 100 \<Longrightarrow> padStart2 (show_nat n) = two_digits n"
proof (cases "n < 10")
  case True
  then show ?thesis
    by (simp add: padStart2_def show_nat_small two_digits_def digits_def)
next
  case False
  assume "n < 100"
  with False have "n div 10 < 10" "10 \<le> n" by simp_all
  then show ?thesis
    by (simp add: padStart2_def show_nat_step[of n] show_nat_small two_digits_def digits_def)
qed

lemma show_nat_four_digits:
  assumes "1000 \<le> n" and "n \<le> 9999"
  shows "show_nat n = four_digits n"
proof -
  have a: "10 \<le> n" "10 \<le> n div 10" "10 \<le> n div 100" "n div 1000 < 10"
    using assms by simp_all
  have d: "n div 10 div 10 = n div 100" "n div 100 div 10 = n div 1000"
    by (simp_all add: div_mult2_eq[symmetric])
  have m: "n div 1000 mod 10 = n div 1000" using a(4) by simp
  have "show_nat n = show_nat (n div 1000) @
      [digits ! (n div 100 mod 10), digits ! (n div 10 mod 10), digits ! (n mod 10)]"
    using a(1,2,3)
    by (simp add: show_nat_step[of n] show_nat_step[of "n div 10"] show_nat_step[of "n div 100"] d)
  then show ?thesis
    using a(4) by (simp add: show_nat_small four_digits_def digits_def m)
qed

lemma formattedTimestamp_clock:
  assumes "four_digit_year d"
  shows "formattedTimestamp_of d = clock_stamp d"
proof -
  from assms have v: "1000 \<le> getFullYear d" "getFullYear d \<le> 9999" "getMonth d + 1 < 100"
    "getDate d < 100" "getHours d < 100" "getMinutes d < 100" "getSeconds d < 100"
    by (simp_all add: four_digit_year_def)
  show ?thesis
    unfolding formattedTimestamp_of_def Let_def clock_stamp_def
    by (simp only: show_nat_four_digits[OF v(1,2)] padStart2_two_digits[OF v(3)]
        padStart2_two_digits[OF v(4)] padStart2_two_digits[OF v(5)] padStart2_two_digits[OF v(6)]
        padStart2_two_digits[OF v(7)])
qed

lemma saveAction_resolved:
  assumes "services_config ctx = Some cfg"
      and "fst (getArchivesDir env cfg w) = Inr (Some archivesDir)"
  shows "saveAction env ctx args w =
     catchE
       (bindE (addItem (''Creating archive: '' @
                  path_str (path_join archivesDir (archiveFileName_of env cfg))) (date_now env)) (\<lambda>u.
        bindE (readArchiveMetadata env archivesDir) (\<lambda>existingMetadata.
        bindE (op_tar_create env (path_join archivesDir (archiveFileName_of env cfg))
                 (case projectRoot cfg of None \<Rightarrow> process_cwd env | Some root \<Rightarrow> root)
                 (archive_filter (allExcludes_of existingMetadata))) (\<lambda>u.
        bindE (writeArchiveMetadata env archivesDir
                 (existingMetadata @
                    [\<lparr>filename = archiveFileName_of env cfg, timestamp = date_now env,
                      description = trim args\<rparr>])) (\<lambda>u.
        bindE (addItem (''Archive created successfully: '' @
                  path_str (path_join archivesDir (archiveFileName_of env cfg))) (date_now env)) (\<lambda>u.
        returnE (info_message
          (''Archive created at: '' @ path_str (path_join archivesDir (archiveFileName_of env cfg)) @
             (if trim args \<noteq> []
              then '' with description: '' @ dquote @ trim args @ dquote
              else [])))))))))
       (\<lambda>e. returnE (error_message (''An unexpected error occurred: '' @ error_text e)))
       (snd (getArchivesDir env cfg w))"
  using assms by (cases "getArchivesDir env cfg w") (auto simp: saveAction_def Let_def)

lemma saveAction_success:
  assumes "services_config ctx = Some cfg"
      and "fst (getArchivesDir env cfg w) = Inr (Some archivesDir)"
      and "saveAction env ctx args w = (Inr msg, w')"
      and "messageType msg = MInfo"
  shows "\<exists>existing cwd.
           fs_lookup (path_join archivesDir ARCHIVE_METADATA_FILE) (fs w') =
             Some (File (stringify_metadata env
               (existing @ [\<lparr>filename = archiveFileName_of env cfg, timestamp = date_now env,
                             description = trim args\<rparr>])))
           \<and> TarCreate (path_join archivesDir (archiveFileName_of env cfg)) cwd \<in> set (trace w')
           \<and> content msg =
               ''Archive created at: '' @ path_str (path_join archivesDir (archiveFileName_of env cfg)) @
               (if trim args \<noteq> [] then '' with description: '' @ dquote @ trim args @ dquote else [])"
proof -
  note s = assms(3)[unfolded saveAction_resolved[OF assms(1,2)]]
  from s show ?thesis
  proof (cases rule: catchE_Inr)
    case 1
    from 1 obtain u1 w1 where a1: "addItem (''Creating archive: '' @
                  path_str (path_join archivesDir (archiveFileName_of env cfg))) (date_now env)
                  (snd (getArchivesDir env cfg w)) = (Inr u1, w1)"
      and r1: "bindE (readArchiveMetadata env archivesDir) (\<lambda>existingMetadata.
        bindE (op_tar_create env (path_join archivesDir (archiveFileName_of env cfg))
                 (case projectRoot cfg of None \<Rightarrow> process_cwd env | Some root \<Rightarrow> root)
                 (archive_filter (allExcludes_of existingMetadata))) (\<lambda>u.
        bindE (writeArchiveMetadata env archivesDir
                 (existingMetadata @
                    [\<lparr>filename = archiveFileName_of env cfg, timestamp = date_now env,
                      description = trim args\<rparr>])) (\<lambda>u.
        bindE (addItem (''Archive created successfully: '' @
                  path_str (path_join archivesDir (archiveFileName_of env cfg))) (date_now env)) (\<lambda>u.
        returnE (info_message
          (''Archive created at: '' @ path_str (path_join archivesDir (archiveFileName_of env cfg)) @
             (if trim args \<noteq> []
              then '' with description: '' @ dquote @ trim args @ dquote
              else []))))))) w1 = (Inr msg, w')"
      by (rule bindE_Inr)
    from r1 obtain existing w2 where a2: "readArchiveMetadata env archivesDir w1 = (Inr existing, w2)"
      and r2: "bindE (op_tar_create env (path_join archivesDir (archiveFileName_of env cfg))
                 (case projectRoot cfg of None \<Rightarrow> process_cwd env | Some root \<Rightarrow> root)
                 (archive_filter (allExcludes_of existing))) (\<lambda>u.
        bindE (writeArchiveMetadata env archivesDir
                 (existing @
                    [\<lparr>filename = archiveFileName_of env cfg, timestamp = date_now env,
                      description = trim args\<rparr>])) (\<lambda>u.
        bindE (addItem (''Archive created successfully: '' @
                  path_str (path_join archivesDir (archiveFileName_of env cfg))) (date_now env)) (\<lambda>u.
        returnE (info_message
          (''Archive created at: '' @ path_str (path_join archivesDir (archiveFileName_of env cfg)) @
             (if trim args \<noteq> []
              then '' with description: '' @ dquote @ trim args @ dquote
              else []))))))  w2 = (Inr msg, w')"
      by (rule bindE_Inr)
    from r2 obtain u3 w3 where a3: "op_tar_create env (path_join archivesDir (archiveFileName_of env cfg))
                 (case projectRoot cfg of None \<Rightarrow> process_cwd env | Some root \<Rightarrow> root)
                 (archive_filter (allExcludes_of existing)) w2 = (Inr u3, w3)"
      and r3: "bindE (writeArchiveMetadata env archivesDir
                 (existing @
                    [\<lparr>filename = archiveFileName_of env cfg, timestamp = date_now env,
                      description = trim args\<rparr>])) (\<lambda>u.
        bindE (addItem (''Archive created successfully: '' @
                  path_str (path_join archivesDir (archiveFileName_of env cfg))) (date_now env)) (\<lambda>u.
        returnE (info_message
          (''Archive created at: '' @ path_str (path_join archivesDir (archiveFileName_of env cfg)) @
             (if trim args \<noteq> []
              then '' with description: '' @ dquote @ trim args @ dquote
              else [])))))  w3 = (Inr msg, w')"
      by (rule bindE_Inr)
    from r3 obtain u4 w4 where a4: "writeArchiveMetadata env archivesDir
                 (existing @
                    [\<lparr>filename = archiveFileName_of env cfg, timestamp = date_now env,
                      description = trim args\<rparr>]) w3 = (Inr u4, w4)"
      and r4: "bindE (addItem (''Archive created successfully: '' @
                  path_str (path_join archivesDir (archiveFileName_of env cfg))) (date_now env)) (\<lambda>u.
        returnE (info_message
          (''Archive created at: '' @ path_str (path_join archivesDir (archiveFileName_of env cfg)) @
             (if trim args \<noteq> []
              then '' with description: '' @ dquote @ trim args @ dquote
              else []))))  w4 = (Inr msg, w')"
      by (rule bindE_Inr)
    from r4 have fin: "w' = w4\<lparr>items := items w4 @ [(''Archive created successfully: '' @
                  path_str (path_join archivesDir (archiveFileName_of env cfg)), date_now env)]\<rparr>"
      and msg: "msg = info_message
          (''Archive created at: '' @ path_str (path_join archivesDir (archiveFileName_of env cfg)) @
             (if trim args \<noteq> []
              then '' with description: '' @ dquote @ trim args @ dquote
              else []))"
      by (auto simp: bindE_def addItem_def returnE_def)
    from a3[unfolded op_tar_create_def] have tr3:
      "TarCreate (path_join archivesDir (archiveFileName_of env cfg))
        (case projectRoot cfg of None \<Rightarrow> process_cwd env | Some root \<Rightarrow> root) \<in> set (trace w3)"
      by (rule sys_Inr) simp
    from a4[unfolded writeArchiveMetadata_def op_writeFile_def Let_def]
    obtain t4 where wr: "fs_writeFile (path_join archivesDir ARCHIVE_METADATA_FILE)
        (stringify_metadata env (existing @
                    [\<lparr>filename = archiveFileName_of env cfg, timestamp = date_now env,
                      description = trim args\<rparr>])) (fs w3) = Inr (u4, t4)"
      and w4: "w4 = w3\<lparr>trace := trace w3 @ [WriteFile (path_join archivesDir ARCHIVE_METADATA_FILE)],
                      fs := t4\<rparr>"
      by (rule sys_Inr)
    from wr w4 have st4: "fs_lookup (path_join archivesDir ARCHIVE_METADATA_FILE) (fs w4) =
        Some (File (stringify_metadata env (existing @
                    [\<lparr>filename = archiveFileName_of env cfg, timestamp = date_now env,
                      description = trim args\<rparr>])))"
      by (simp add: fs_writeFile_stored)
    from w4 have tr4: "set (trace w3) \<subseteq> set (trace w4)" by auto
    from fin msg tr3 st4 tr4 show ?thesis
      by (auto simp: info_message_def)
  next
    case (2 e w1)
    from 2(2) have "messageType msg = MError"
      by (auto simp: returnE_def error_message_def)
    with assms(4) show ?thesis by simp
  qed
qed


text \<open>
  C5, as amended. With the archives directory resolved and a local time whose year has
  four digits, for every argument of the save command: the archive file name is the
  project name, \<open>-archive-\<close>, the four digits of the local year, the two digits of the
  month (counted from one), of the day, a dash, the two digits of the hour, of the minute
  and of the second, and \<open>.tar.gz\<close>, which is the pattern
  \<open><project>-archive-YYYYMMDD-HHMMSS.tar.gz\<close>; when the handler
  returns its success message, \<open>tar.create\<close> was called on that name in the archives
  directory, the metadata file holds the list read before with one record appended (that
  name, the time stamp, the trimmed argument as description), and the message names the
  path and, when the trimmed argument is not empty, the description. At the local time
  2025-01-01T12:00:00 the name for project \<open>test-project\<close> is
  \<open>test-project-archive-20250101-120000.tar.gz\<close>, and the success message for the
  argument \<open>my important backup\<close> contains \<open>with description: "my important backup"\<close>.
\<close>

theorem C5_archive_name_and_description:
  assumes "services_config ctx = Some cfg"
      and "fst (getArchivesDir env cfg w) = Inr (Some archivesDir)"
      and "four_digit_year (local_time env (date_now env))"
  shows "archive_name_ok (projectName_of cfg) (archiveFileName_of env cfg)
       \<and> archiveFileName_of env cfg =
           projectName_of cfg @ ''-archive-'' @ clock_stamp (local_time env (date_now env)) @
           ''.tar.gz''
       \<and> (\<forall>msg w'. saveAction env ctx args w = (Inr msg, w') \<and> messageType msg = MInfo \<longrightarrow>
            (\<exists>existing cwd.
               fs_lookup (path_join archivesDir ARCHIVE_METADATA_FILE) (fs w') =
                 Some (File (stringify_metadata env
                   (existing @ [\<lparr>filename = archiveFileName_of env cfg, timestamp = date_now env,
                                 description = trim args\<rparr>])))
               \<and> TarCreate (path_join archivesDir (archiveFileName_of env cfg)) cwd \<in> set (trace w')
               \<and> content msg =
                   ''Archive created at: '' @
                   path_str (path_join archivesDir (archiveFileName_of env cfg)) @
                   (if trim args \<noteq> [] then '' with description: '' @ dquote @ trim args @ dquote
                    else [])))
       \<and> (local_time env (date_now env) =
             \<lparr>getFullYear = 2025, getMonth = 0, getDate = 1,
              getHours = 12, getMinutes = 0, getSeconds = 0\<rparr>
            \<and> projectName_of cfg = ''test-project'' \<longrightarrow>
            archiveFileName_of env cfg = ''test-project-archive-20250101-120000.tar.gz'')
       \<and> (\<forall>msg w'. saveAction env ctx ''my important backup'' w = (Inr msg, w')
             \<and> messageType msg = MInfo \<longrightarrow>
            contains (content msg) ('' with description: '' @ dquote @ ''my important backup'' @ dquote))"
proof -
  have a: "archive_name_ok (projectName_of cfg) (archiveFileName_of env cfg)"
    using assms(3) by (rule archiveFileName_ok)
  have a2: "archiveFileName_of env cfg =
           projectName_of cfg @ ''-archive-'' @ clock_stamp (local_time env (date_now env)) @
           ''.tar.gz''"
    by (simp add: archiveFileName_of_def formattedTimestamp_clock[OF assms(3)])
  have b: "\<And>args. \<forall>msg w'. saveAction env ctx args w = (Inr msg, w') \<and> messageType msg = MInfo \<longrightarrow>
            (\<exists>existing cwd.
               fs_lookup (path_join archivesDir ARCHIVE_METADATA_FILE) (fs w') =
                 Some (File (stringify_metadata env
                   (existing @ [\<lparr>filename = archiveFileName_of env cfg, timestamp = date_now env,
                                 description = trim args\<rparr>])))
               \<and> TarCreate (path_join archivesDir (archiveFileName_of env cfg)) cwd \<in> set (trace w')
               \<and> content msg =
                   ''Archive created at: '' @
                   path_str (path_join archivesDir (archiveFileName_of env cfg)) @
                   (if trim args \<noteq> [] then '' with description: '' @ dquote @ trim args @ dquote
                    else []))"
    using saveAction_success[OF assms(1,2)] by blast
  have c: "local_time env (date_now env) =
             \<lparr>getFullYear = 2025, getMonth = 0, getDate = 1,
              getHours = 12, getMinutes = 0, getSeconds = 0\<rparr>
            \<and> projectName_of cfg = ''test-project'' \<longrightarrow>
            archiveFileName_of env cfg = ''test-project-archive-20250101-120000.tar.gz''"
    by (simp add: archiveFileName_of_def formattedTimestamp_of_def Let_def padStart2_def
        show_nat.simps digits_def)
  have t: "trim ''my important backup'' = ''my important backup''"
    by (simp add: trim_def is_space_def)
  have d: "\<forall>msg w'. saveAction env ctx ''my important backup'' w = (Inr msg, w')
             \<and> messageType msg = MInfo \<longrightarrow>
            contains (content msg) ('' with description: '' @ dquote @ ''my important backup'' @ dquote)"
  proof (intro allI impI)
    fix msg w'
    assume h: "saveAction env ctx ''my important backup'' w = (Inr msg, w') \<and> messageType msg = MInfo"
    with b[of "''my important backup''"] have "content msg =
                   ''Archive created at: '' @
                   path_str (path_join archivesDir (archiveFileName_of env cfg)) @
                   '' with description: '' @ dquote @ ''my important backup'' @ dquote"
      unfolding t by auto
    then show "contains (content msg) ('' with description: '' @ dquote @ ''my important backup'' @ dquote)"
      unfolding contains_def
      by (intro exI[where x = "''Archive created at: '' @
                   path_str (path_join archivesDir (archiveFileName_of env cfg))"] exI[where x = "[]"])
         simp
  qed
  from a a2 b[of args] c d show ?thesis by blast
qed


lemma example_save_run:
  "fst (saveAction example_env example_context ''my important backup'' example_world) =
     Inr \<lparr>messageType = MInfo,
          content = ''Archive created at: /mock/tmp/project-temp/archives/test-project-archive-20250101-120000.tar.gz with description: '' @ dquote @ ''my important backup'' @ dquote\<rparr>"
  by (simp add: handler_defs io_defs fs_defs example_defs Let_def show_nat.simps digits_def)

lemma example_save_store:
  "fs_lookup [''mock'', ''tmp'', ''project-temp'', ''archives'', ''archive-metadata.json'']
     (fs (snd (saveAction example_env example_context ''my important backup'' example_world))) =
     Some (File ''test-project-archive-20250101-120000.tar.gz|my important backup;'')"
  by (simp add: handler_defs io_defs fs_defs example_defs Let_def show_nat.simps digits_def)

text \<open>The amended C5 at the scenario, run in the example world: the save succeeds and
  stores its record.\<close>

theorem C5_witness:
  "four_digit_year (local_time example_env (date_now example_env))
   \<and> clock_stamp (local_time example_env (date_now example_env)) = ''20250101-120000''
   \<and> archiveFileName_of example_env example_config = ''test-project-archive-20250101-120000.tar.gz''
   \<and> archive_name_ok ''test-project'' ''test-project-archive-20250101-120000.tar.gz''
   \<and> messageType (projr (fst (saveAction example_env example_context ''my important backup''
        example_world))) = MInfo
   \<and> contains (content (projr (fst (saveAction example_env example_context ''my important backup''
        example_world)))) ('' with description: '' @ dquote @ ''my important backup'' @ dquote)
   \<and> fs_lookup [''mock'', ''tmp'', ''project-temp'', ''archives'', ''archive-metadata.json'']
        (fs (snd (saveAction example_env example_context ''my important backup'' example_world))) =
      Some (File ''test-project-archive-20250101-120000.tar.gz|my important backup;'')"
proof -
  have h1: "services_config example_context = Some example_config"
    by (simp add: example_context_def)
  have h2: "fst (getArchivesDir example_env example_config example_world) =
      Inr (Some [''mock'', ''tmp'', ''project-temp'', ''archives''])"
    by (simp add: example_getArchivesDir)
  have h3: "four_digit_year (local_time example_env (date_now example_env))"
    by (simp add: four_digit_year_def example_env_def)
  have clock: "local_time example_env (date_now example_env) =
             \<lparr>getFullYear = 2025, getMonth = 0, getDate = 1,
              getHours = 12, getMinutes = 0, getSeconds = 0\<rparr>"
    by (simp add: example_env_def)
  have name: "projectName_of example_config = ''test-project''"
    by (simp add: projectName_of_def basename_def example_config_def)
  have run: "saveAction example_env example_context ''my important backup'' example_world =
     (Inr \<lparr>messageType = MInfo,
          content = ''Archive created at: /mock/tmp/project-temp/archives/test-project-archive-20250101-120000.tar.gz with description: '' @ dquote @ ''my important backup'' @ dquote\<rparr>,
      snd (saveAction example_env example_context ''my important backup'' example_world))"
    using example_save_run by (metis prod.collapse)
  note c5 = C5_archive_name_and_description[OF h1 h2 h3, of "''my important backup''"]
  from c5 clock name have fn:
    "archiveFileName_of example_env example_config = ''test-project-archive-20250101-120000.tar.gz''"
    by blast
  from c5 name fn have ok:
    "archive_name_ok ''test-project'' ''test-project-archive-20250101-120000.tar.gz''"
    by simp
  from c5 run have c: "contains (content \<lparr>messageType = MInfo,
          content = ''Archive created at: /mock/tmp/project-temp/archives/test-project-archive-20250101-120000.tar.gz with description: '' @ dquote @ ''my important backup'' @ dquote\<rparr>)
       ('' with description: '' @ dquote @ ''my important backup'' @ dquote)"
    by (metis message.select_convs(1))
  have cs: "clock_stamp (local_time example_env (date_now example_env)) = ''20250101-120000''"
    by (simp add: clock clock_stamp_def four_digits_def two_digits_def)
  show ?thesis
    using h3 cs fn ok c example_save_store by (simp add: example_save_run)
qed

lemma future_run:
  "fst (saveAction future_env example_context ''my important backup'' example_world) =
     Inr \<lparr>messageType = MInfo,
          content = ''Archive created at: /mock/tmp/project-temp/archives/test-project-archive-100000101-120000.tar.gz with description: '' @ dquote @ ''my important backup'' @ dquote\<rparr>"
  by (simp add: handler_defs io_defs fs_defs example_defs future_env_def Let_def show_nat.simps digits_def)

lemma future_name:
  "archiveFileName_of future_env example_config = ''test-project-archive-100000101-120000.tar.gz''
   \<and> \<not> archive_name_ok ''test-project'' (archiveFileName_of future_env example_config)"
  by (simp add: archiveFileName_of_def formattedTimestamp_of_def Let_def padStart2_def
        show_nat.simps digits_def future_env_def example_env_def projectName_of_def basename_def
        example_config_def archive_name_ok_def is_digit_def)

text \<open>C5 as stated fails at a clock whose local year is 10000: the year is written without
  padding or truncation, the save succeeds, and the name it produces has nine digits
  before the dash, which is not the pattern.\<close>

theorem C5_counterexample:
  "fst (saveAction future_env example_context ''my important backup'' example_world) =
     Inr \<lparr>messageType = MInfo,
          content = ''Archive created at: /mock/tmp/project-temp/archives/test-project-archive-100000101-120000.tar.gz with description: '' @ dquote @ ''my important backup'' @ dquote\<rparr>
   \<and> archiveFileName_of future_env example_config = ''test-project-archive-100000101-120000.tar.gz''
   \<and> \<not> archive_name_ok ''test-project'' (archiveFileName_of future_env example_config)"
  by (rule conjI[OF future_run future_name])

subsection \<open>The list of archives\<close>

lemma newest_first_sort: "newest_first (sort_newest_first xs)"
proof -
  have "sorted (map (\<lambda>a. - timestamp a) (sort_key (\<lambda>a. - timestamp a) xs))"
    by (rule sorted_sort_key)
  then show ?thesis
    by (simp add: newest_first_def sort_newest_first_def sorted_map)
qed

lemma mset_sort_newest_first: "mset (sort_newest_first xs) = mset xs"
  by (simp add: sort_newest_first_def)

lemma sort_newest_first_stable:
  "filter (\<lambda>a. timestamp a = t) (sort_newest_first xs) = filter (\<lambda>a. timestamp a = t) xs"
  using sort_key_stable[of "\<lambda>a. - timestamp a" "- t" xs]
  by (simp add: sort_newest_first_def)

lemma sort_newest_first_order:
  assumes "mset xs' = mset xs"
  shows "map timestamp (sort_newest_first xs') = map timestamp (sort_newest_first xs)"
proof -
  let ?k = "\<lambda>a. - timestamp a"
  let ?ys = "map ?k (sort_key ?k xs)" and ?ys' = "map ?k (sort_key ?k xs')"
  have s: "sorted ?ys" and s': "sorted ?ys'" by (rule sorted_sort_key)+
  have "mset ?ys = mset ?ys'" using assms by simp
  then have "sort ?ys' = ?ys" using s by (intro properties_for_sort) simp_all
  moreover have "sort ?ys' = ?ys'" using s' by (rule sorted_sort_id)
  ultimately have "?ys' = ?ys" by simp
  then have "map uminus ?ys' = map uminus ?ys" by simp
  then show ?thesis by (simp add: sort_newest_first_def comp_def)
qed

lemma list_archives_read:
  assumes "fst (readArchiveMetadata env archivesDir w1) = Inr archives"
  shows "fst (list_archives env cfg archivesDir w1) =
     Inr \<lparr>messageType = MInfo,
          content =
            (if filter (is_project_archive (projectName_of cfg)) archives = []
             then ''No saved archives found for the current project.''
             else ''Available archives for the current project:'' @ newline @ newline @
                  concat (map (render_line env)
                    (sort_newest_first (filter (is_project_archive (projectName_of cfg)) archives))))\<rparr>"
  using assms
  by (cases "readArchiveMetadata env archivesDir w1")
     (simp add: list_archives_def catchE_def bindE_def returnE_def info_message_def Let_def)

text \<open>
  C7, as amended. In list mode, with the archives directory resolved and the store read,
  the message renders one line per shown record, in order, where the shown records are
  the stored records whose file name starts with \<open><projectBaseName>-archive-\<close> (no
  other record is shown), sorted newest first: down the list the time stamp never
  increases, records of one time stamp keep the order of the store, and the sequence of
  time stamps is the same for every order in which the records were stored.
\<close>

theorem C7_list_newest_first:
  assumes "services_config ctx = Some cfg"
      and "fst (getArchivesDir env cfg w) = Inr (Some archivesDir)"
      and "fst (readArchiveMetadata env archivesDir (snd (getArchivesDir env cfg w))) = Inr archives"
      and "fst (parse_args args) = []"
      and "shown = sort_newest_first (filter (is_project_archive (projectName_of cfg)) archives)"
  shows "fst (loadAction env ctx args w) =
           Inr \<lparr>messageType = MInfo,
                content =
                  (if shown = [] then ''No saved archives found for the current project.''
                   else ''Available archives for the current project:'' @ newline @ newline @
                        concat (map (render_line env) shown))\<rparr>
         \<and> newest_first shown
         \<and> mset shown = mset (filter (is_project_archive (projectName_of cfg)) archives)
         \<and> (\<forall>a \<in> set archives.
               a \<in> set shown \<longleftrightarrow> prefix (projectName_of cfg @ ''-archive-'') (filename a))
         \<and> (\<forall>a \<in> set shown. prefix (projectName_of cfg @ ''-archive-'') (filename a))
         \<and> (\<forall>t. filter (\<lambda>a. timestamp a = t) shown =
                  filter (\<lambda>a. timestamp a = t)
                    (filter (is_project_archive (projectName_of cfg)) archives))
         \<and> (\<forall>archives'. mset archives' = mset archives \<longrightarrow>
               map timestamp
                 (sort_newest_first (filter (is_project_archive (projectName_of cfg)) archives'))
               = map timestamp shown)"
proof -
  let ?f = "filter (is_project_archive (projectName_of cfg)) archives"
  have e: "(sort_newest_first ?f = []) = (?f = [])"
    using mset_sort_newest_first[of ?f] by (metis mset_zero_iff)
  have 1: "fst (loadAction env ctx args w) =
           Inr \<lparr>messageType = MInfo,
                content =
                  (if shown = [] then ''No saved archives found for the current project.''
                   else ''Available archives for the current project:'' @ newline @ newline @
                        concat (map (render_line env) shown))\<rparr>"
    using loadAction_resolved[OF assms(1,2)] list_archives_read[OF assms(3)] assms(4)
    by (simp add: e assms(5))
  have 2: "newest_first shown" unfolding assms(5) by (rule newest_first_sort)
  have 3: "mset shown = mset ?f" unfolding assms(5) by (rule mset_sort_newest_first)
  have s: "set shown = set ?f" using 3 by (rule mset_eq_setD)
  have 4: "\<forall>a \<in> set archives.
               a \<in> set shown \<longleftrightarrow> prefix (projectName_of cfg @ ''-archive-'') (filename a)"
    by (simp add: s is_project_archive_def)
  have 5: "\<forall>a \<in> set shown. prefix (projectName_of cfg @ ''-archive-'') (filename a)"
    by (simp add: s is_project_archive_def)
  have 6: "\<forall>t. filter (\<lambda>a. timestamp a = t) shown = filter (\<lambda>a. timestamp a = t) ?f"
    unfolding assms(5) by (simp add: sort_newest_first_stable)
  have 7: "\<forall>archives'. mset archives' = mset archives \<longrightarrow>
               map timestamp
                 (sort_newest_first (filter (is_project_archive (projectName_of cfg)) archives'))
               = map timestamp shown"
    unfolding assms(5)
  proof (intro allI impI)
    fix archives' assume "mset archives' = mset archives"
    then have "mset (filter (is_project_archive (projectName_of cfg)) archives') = mset ?f"
      by (metis mset_filter)
    then show "map timestamp
                 (sort_newest_first (filter (is_project_archive (projectName_of cfg)) archives'))
               = map timestamp (sort_newest_first ?f)"
      by (rule sort_newest_first_order)
  qed
  from 1 2 3 4 5 6 7 show ?thesis by blast
qed

lemma archives_getArchivesDir:
  "getArchivesDir example_env example_config
     (world_of (example_fs [(''archives'', example_archives m)])) =
     (Inr (Some [''mock'', ''tmp'', ''project-temp'', ''archives'']),
      (world_of (example_fs [(''archives'', example_archives m)]))
        \<lparr>trace := [Mkdir [''mock'', ''tmp'', ''project-temp'', ''archives'']]\<rparr>)"
  by (simp add: getArchivesDir_def path_join_def ARCHIVES_DIR_NAME_def io_defs fs_defs
      example_env_def example_config_def example_fs_def example_archives_def world_of_def Let_def)

lemma archives_readArchiveMetadata:
  "fst (readArchiveMetadata example_env [''mock'', ''tmp'', ''project-temp'', ''archives'']
     ((world_of (example_fs [(''archives'', example_archives m)]))
        \<lparr>trace := [Mkdir [''mock'', ''tmp'', ''project-temp'', ''archives'']]\<rparr>)) =
   (case parse_metadata example_env m of Inl e \<Rightarrow> Inl e | Inr md \<Rightarrow> Inr md)"
  by (simp add: readArchiveMetadata_def path_join_def ARCHIVE_METADATA_FILE_def io_defs fs_defs
      example_env_def example_fs_def example_archives_def world_of_def Let_def
      split: sum.splits)

lemma example_project_name: "projectName_of example_config = ''test-project''"
  by (simp add: projectName_of_def basename_def example_config_def)

lemma example_shown:
  "sort_newest_first (filter (is_project_archive ''test-project'') example_records) =
     [\<lparr>filename = ''test-project-archive-3.tar.gz'', timestamp = 1678972800000,
       description = ''Newest backup''\<rparr>,
      \<lparr>filename = ''test-project-archive-2.tar.gz'', timestamp = 1678929600000,
       description = []\<rparr>,
      \<lparr>filename = ''test-project-archive-1.tar.gz'', timestamp = 1678886400000,
       description = ''Old backup''\<rparr>]"
  by (simp add: sort_newest_first_def is_project_archive_def example_records_def)

text \<open>The amended C7 in a world whose store holds four records, three of this
  project.\<close>

theorem C7_witness:
  "fst (loadAction example_env example_context [] listed_world) =
     Inr \<lparr>messageType = MInfo,
          content = ''Available archives for the current project:'' @ newline @ newline @
            ''- test-project-archive-3.tar.gz (Created: date) - Newest backup'' @ newline @
            ''- test-project-archive-2.tar.gz (Created: date)'' @ newline @
            ''- test-project-archive-1.tar.gz (Created: date) - Old backup'' @ newline\<rparr>
   \<and> newest_first (sort_newest_first (filter (is_project_archive ''test-project'') example_records))"
proof -
  have h1: "services_config example_context = Some example_config"
    by (simp add: example_context_def)
  have h2: "fst (getArchivesDir example_env example_config listed_world) =
      Inr (Some [''mock'', ''tmp'', ''project-temp'', ''archives''])"
    by (simp add: listed_world_def archives_getArchivesDir)
  have h3: "fst (readArchiveMetadata example_env [''mock'', ''tmp'', ''project-temp'', ''archives'']
      (snd (getArchivesDir example_env example_config listed_world))) = Inr example_records"
    unfolding listed_world_def archives_getArchivesDir snd_conv archives_readArchiveMetadata
    by (simp add: example_env_def)
  have h4: "fst (parse_args []) = []" by (simp add: parse_args_def)
  have h5: "sort_newest_first (filter (is_project_archive ''test-project'') example_records) =
    sort_newest_first (filter (is_project_archive (projectName_of example_config)) example_records)"
    by (simp add: example_project_name)
  show ?thesis
    using C7_list_newest_first[OF h1 h2 h3 h4 h5]
    by (simp add: example_shown render_line_def example_env_def)
qed

text \<open>C7 as stated asks for a strictly descending order; two records of one time stamp
  are both listed, and their time stamps do not descend strictly.\<close>

theorem C7_counterexample:
  "fst (loadAction example_env example_context [] tied_world) =
     Inr \<lparr>messageType = MInfo,
          content = ''Available archives for the current project:'' @ newline @ newline @
            concat (map (render_line example_env) tied_records)\<rparr>
   \<and> \<not> strictly_newest_first tied_records"
proof -
  have h1: "services_config example_context = Some example_config"
    by (simp add: example_context_def)
  have h2: "fst (getArchivesDir example_env example_config tied_world) =
      Inr (Some [''mock'', ''tmp'', ''project-temp'', ''archives''])"
    by (simp add: tied_world_def archives_getArchivesDir)
  have h3: "fst (readArchiveMetadata example_env [''mock'', ''tmp'', ''project-temp'', ''archives'']
      (snd (getArchivesDir example_env example_config tied_world))) = Inr tied_records"
    unfolding tied_world_def archives_getArchivesDir snd_conv archives_readArchiveMetadata
    by (simp add: example_env_def)
  have h4: "fst (parse_args []) = []" by (simp add: parse_args_def)
  have fl: "filter (is_project_archive (projectName_of example_config)) tied_records = tied_records"
    by (simp add: example_project_name is_project_archive_def tied_records_def)
  have sh: "sort_newest_first tied_records = tied_records"
    by (simp add: sort_newest_first_def tied_records_def)
  have ne: "tied_records \<noteq> []" by (simp add: tied_records_def)
  have "fst (loadAction example_env example_context [] tied_world) =
     Inr \<lparr>messageType = MInfo,
          content = ''Available archives for the current project:'' @ newline @ newline @
            concat (map (render_line example_env) tied_records)\<rparr>"
    using loadAction_resolved[OF h1 h2, of "[]"] list_archives_read[OF h3, of example_config] h4 ne
    by (simp add: fl sh)
  moreover have "\<not> strictly_newest_first tied_records"
    by (simp add: strictly_newest_first_def tied_records_def)
  ultimately show ?thesis by simp
qed

subsection \<open>What a call leaves alone\<close>

lemma sys_trace: "trace (snd (sys env c act w)) = trace w @ [c]"
  by (simp add: sys_def Let_def split: option.splits sum.splits prod.splits)

lemma sys_sinks:
  "ui_history (snd (sys env c act w)) = ui_history w"
  "client_history (snd (sys env c act w)) = client_history w"
  by (simp_all add: sys_def Let_def split: option.splits sum.splits prod.splits)

lemma getArchivesDir_sinks:
  "ui_history (snd (getArchivesDir env cfg w)) = ui_history w"
  "client_history (snd (getArchivesDir env cfg w)) = client_history w"
  by (simp_all add: getArchivesDir_def Let_def returnE_def bindE_def op_mkdir_def
      split: option.splits sum.splits prod.splits)
     (metis sys_sinks snd_conv)+

subsection \<open>The legacy file\<close>

lemma load_selected_legacy:
  assumes "\<not> suffix ''.tar.gz'' selectedFile"
  shows "load_selected env ctx cfg archivesDir selectedFile force =
     catchE (load_legacy env ctx cfg (path_join archivesDir selectedFile) selectedFile)
       (\<lambda>e. returnE (error_message
          (''Error loading archive '' @ selectedFile @ '': '' @ error_text e)))"
  using assms by (simp add: load_selected_def Let_def)

lemma load_legacy_history_only:
  assumes "op_readFile env filePath w1 = (Inr data, w2)"
      and "parse_json env data = Inr (JObj kvs)"
      and "map_of kvs ''history'' = Some h"
      and "truthy (Some h)"
      and "map_of kvs ''clientHistory'' = None"
  shows "load_legacy env ctx cfg filePath selectedFile w1 =
     (if ui_loadHistory ctx
      then (Inr (info_message (''Archive '' @ apostrophe @ selectedFile @ apostrophe @
                  '' loaded successfully.'')),
            w2\<lparr>ui_history := ui_history w2 @ [h]\<rparr>)
      else (Inr (error_message ''loadHistory function is not available.''), w2))"
  using assms
  by (simp add: load_legacy_def bindE_def returnE_def call_loadHistory_def)

text \<open>
  C9, as amended. For a selected file that is not a \<open>.tar.gz\<close> file, is read, and
  parses to an object with a truthy \<open>history\<close> field (an array, an object, a non-empty
  string, a number other than zero, \<open>true\<close>) and no \<open>clientHistory\<close> field: when the
  user interface has \<open>loadHistory\<close>, the handler calls it once, with that field's
  value, never calls \<open>setHistory\<close>, and returns its success message; when it has not,
  the handler returns the message \<open>loadHistory function is not available.\<close> and calls
  neither sink.
\<close>

theorem C9_legacy_history_only:
  assumes "services_config ctx = Some cfg"
      and "fst (getArchivesDir env cfg w) = Inr (Some archivesDir)"
      and "parse_args args = (selectedFile, force)"
      and "selectedFile \<noteq> []"
      and "\<not> suffix ''.tar.gz'' selectedFile"
      and "fst (op_readFile env (path_join archivesDir selectedFile) (snd (getArchivesDir env cfg w)))
             = Inr data"
      and "parse_json env data = Inr (JObj kvs)"
      and "map_of kvs ''history'' = Some h"
      and "truthy (Some h)"
      and "map_of kvs ''clientHistory'' = None"
  shows "(ui_loadHistory ctx \<longrightarrow>
            fst (loadAction env ctx args w) =
              Inr \<lparr>messageType = MInfo,
                   content = ''Archive '' @ apostrophe @ selectedFile @ apostrophe @
                             '' loaded successfully.''\<rparr>
            \<and> ui_history (snd (loadAction env ctx args w)) = ui_history w @ [h]
            \<and> client_history (snd (loadAction env ctx args w)) = client_history w)
       \<and> (\<not> ui_loadHistory ctx \<longrightarrow>
            fst (loadAction env ctx args w) =
              Inr \<lparr>messageType = MError, content = ''loadHistory function is not available.''\<rparr>
            \<and> ui_history (snd (loadAction env ctx args w)) = ui_history w
            \<and> client_history (snd (loadAction env ctx args w)) = client_history w)"
proof -
  define w1 where "w1 = snd (getArchivesDir env cfg w)"
  define w2 where "w2 = snd (op_readFile env (path_join archivesDir selectedFile) w1)"
  have rd: "op_readFile env (path_join archivesDir selectedFile) w1 = (Inr data, w2)"
    using assms(6) by (simp add: w1_def w2_def prod_eq_iff)
  have s1: "ui_history w1 = ui_history w" "client_history w1 = client_history w"
    by (simp_all add: w1_def getArchivesDir_sinks)
  have s2: "ui_history w2 = ui_history w" "client_history w2 = client_history w"
    by (simp_all add: w2_def op_readFile_def sys_sinks s1)
  have run: "loadAction env ctx args w =
     (if ui_loadHistory ctx
      then (Inr (info_message (''Archive '' @ apostrophe @ selectedFile @ apostrophe @
                  '' loaded successfully.'')),
            w2\<lparr>ui_history := ui_history w2 @ [h]\<rparr>)
      else (Inr (error_message ''loadHistory function is not available.''), w2))"
    using assms(3,4)
    by (simp add: loadAction_resolved[OF assms(1,2)] load_selected_legacy[OF assms(5)]
        catchE_def w1_def[symmetric] load_legacy_history_only[OF rd assms(7-10)])
  show ?thesis
    by (simp add: run s2 info_message_def error_message_def)
qed

lemma example_not_targz: "\<not> suffix ''.tar.gz'' ''legacy.json''"
  by (simp add: suffix_to_prefix)

text \<open>The amended C9 on a legacy file of the example world.\<close>

theorem C9_witness:
  "fst (loadAction example_env example_context ''legacy.json'' example_world) =
     Inr \<lparr>messageType = MInfo,
          content = ''Archive '' @ apostrophe @ ''legacy.json'' @ apostrophe @ '' loaded successfully.''\<rparr>
   \<and> ui_history (snd (loadAction example_env example_context ''legacy.json'' example_world)) =
       [JArr [JStr ''Hello'']]
   \<and> client_history (snd (loadAction example_env example_context ''legacy.json'' example_world)) = []"
proof -
  have h1: "services_config example_context = Some example_config"
    by (simp add: example_context_def)
  have h2: "fst (getArchivesDir example_env example_config example_world) =
      Inr (Some [''mock'', ''tmp'', ''project-temp'', ''archives''])"
    by (simp add: example_getArchivesDir)
  have h3: "parse_args ''legacy.json'' = (''legacy.json'', False)"
    by (simp add: parse_args_def)
  have h4: "''legacy.json'' \<noteq> []" by simp
  have h6: "fst (op_readFile example_env
       (path_join [''mock'', ''tmp'', ''project-temp'', ''archives''] ''legacy.json'')
       (snd (getArchivesDir example_env example_config example_world))) = Inr ''{history}''"
    unfolding example_getArchivesDir snd_conv
    by (simp add: path_join_def io_defs fs_defs example_defs Let_def)
  have h7: "parse_json example_env ''{history}'' = Inr (JObj [(''history'', JArr [JStr ''Hello''])])"
    by (simp add: example_env_def)
  have h8: "map_of [(''history'', JArr [JStr ''Hello''])] ''history'' = Some (JArr [JStr ''Hello''])"
    by simp
  have h9: "truthy (Some (JArr [JStr ''Hello'']))" by simp
  have h10: "map_of [(''history'', JArr [JStr ''Hello''])] ''clientHistory'' = None" by simp
  have ui: "ui_loadHistory example_context" by (simp add: example_context_def)
  show ?thesis
    using C9_legacy_history_only[OF h1 h2 h3 h4 example_not_targz h6 h7 h8 h9 h10] ui
    by (simp add: example_world_def world_of_def)
qed

text \<open>C9 as stated fails on a file whose object has a \<open>history\<close> field that is
  \<open>null\<close>: the test \<open>if (toolCallData.history)\<close> skips the call, and the handler
  reports success with \<open>loadHistory\<close> never called.\<close>

theorem C9_counterexample:
  "parse_json example_env ''{history:null}'' = Inr (JObj [(''history'', JNull)])
   \<and> map_of [(''history'', JNull)] ''history'' = Some JNull
   \<and> map_of [(''history'', JNull)] ''clientHistory'' = None
   \<and> ui_loadHistory example_context
   \<and> fst (loadAction example_env example_context ''null.json'' example_world) =
       Inr \<lparr>messageType = MInfo,
            content = ''Archive '' @ apostrophe @ ''null.json'' @ apostrophe @ '' loaded successfully.''\<rparr>
   \<and> ui_history (snd (loadAction example_env example_context ''null.json'' example_world)) = []"
  by (simp add: handler_defs io_defs fs_defs example_defs Let_def suffix_to_prefix)

subsection \<open>The path of the selected file\<close>

lemma grows_returnE: "prefix (trace w) (trace (snd (returnE x w)))"
  by (simp add: returnE_def)

lemma grows_throwE: "prefix (trace w) (trace (snd (throwE e w)))"
  by (simp add: throwE_def)

lemma grows_sys: "prefix (trace w) (trace (snd (sys env c act w)))"
  by (simp add: sys_trace)

lemma grows_bindE:
  assumes "\<And>w. prefix (trace w) (trace (snd (m w)))"
      and "\<And>x w. prefix (trace w) (trace (snd (f x w)))"
  shows "prefix (trace w) (trace (snd (bindE m f w)))"
proof (cases "m w")
  case (Pair r w1)
  with assms(1)[of w] have p: "prefix (trace w) (trace w1)" by simp
  show ?thesis
  proof (cases r)
    case (Inl e)
    with Pair p show ?thesis by (simp add: bindE_def)
  next
    case (Inr x)
    with Pair p assms(2)[of w1 x] show ?thesis
      by (auto simp: bindE_def intro: prefix_order.trans)
  qed
qed

lemma grows_catchE:
  assumes "\<And>w. prefix (trace w) (trace (snd (m w)))"
      and "\<And>e w. prefix (trace w) (trace (snd (h e w)))"
  shows "prefix (trace w) (trace (snd (catchE m h w)))"
proof (cases "m w")
  case (Pair r w1)
  with assms(1)[of w] have p: "prefix (trace w) (trace w1)" by simp
  show ?thesis
  proof (cases r)
    case (Inl e)
    with Pair p assms(2)[of w1 e] show ?thesis
      by (auto simp: catchE_def intro: prefix_order.trans)
  next
    case (Inr x)
    with Pair p show ?thesis by (simp add: catchE_def)
  qed
qed

lemma grows_finallyE:
  assumes "\<And>w. prefix (trace w) (trace (snd (m w)))"
      and "\<And>w. prefix (trace w) (trace (snd (c w)))"
  shows "prefix (trace w) (trace (snd (finallyE m c w)))"
proof (cases "m w")
  case (Pair r w1)
  with assms(1)[of w] have p: "prefix (trace w) (trace w1)" by simp
  from assms(2)[of w1] p have "prefix (trace w) (trace (snd (c w1)))"
    by (rule prefix_order.trans[rotated])
  with Pair show ?thesis
    by (auto simp: finallyE_def split: prod.splits sum.splits)
qed

lemma grows_clear_loop: "prefix (trace w) (trace (snd (clear_loop env root xs w)))"
proof (induction xs arbitrary: w)
  case Nil
  show ?case by (simp add: grows_returnE)
next
  case (Cons x xs)
  show ?case
    by (simp add: Cons.IH) (intro impI grows_bindE Cons.IH, simp add: op_rm_def grows_sys)
qed

lemma grows_move_loop: "prefix (trace w) (trace (snd (move_loop env tempDir root xs w)))"
proof (induction xs arbitrary: w)
  case Nil
  show ?case by (simp add: grows_returnE)
next
  case (Cons x xs)
  show ?case
    unfolding move_loop.simps Let_def
    by (intro grows_bindE Cons.IH) (simp_all add: op_cp_def op_rm_def grows_sys)
qed

lemma restore_body_trace:
  "prefix (trace w @ [TarExtract filePath tempDir])
     (trace (snd (restore_body env root filePath selectedFile tempDir w)))"
proof (cases "op_tar_extract env filePath tempDir w")
  case (Pair r w1)
  then have t: "trace w1 = trace w @ [TarExtract filePath tempDir]"
    using sys_trace[of env "TarExtract filePath tempDir" "fs_tar_extract env filePath tempDir" w]
    by (simp add: op_tar_extract_def)
  show ?thesis
  proof (cases r)
    case (Inl e)
    with Pair t show ?thesis by (simp add: restore_body_def bindE_def)
  next
    case (Inr u)
    have "prefix (trace w1) (trace (snd (
       bindE (op_readdir env root) (\<lambda>projectContents.
       bindE (clear_loop env root projectContents) (\<lambda>u.
       bindE (op_readdir env tempDir) (\<lambda>extractedContents.
       bindE (move_loop env tempDir root extractedContents) (\<lambda>u.
       returnE (info_message
         (''Archive '' @ apostrophe @ selectedFile @ apostrophe @
          '' loaded and extracted successfully to '' @ path_str root @ ''.'')))))) w1)))"
      by (intro grows_bindE grows_returnE grows_clear_loop grows_move_loop)
         (simp_all add: op_readdir_def grows_sys)
    with Pair Inr t show ?thesis
      by (simp add: restore_body_def bindE_def[of "op_tar_extract env filePath tempDir"])
  qed
qed

lemma restore_archive_trace:
  assumes "op_mkdtemp env pre w1 = (Inr tempDir, w2)"
      and "pre = path_join (tmpdir env) ''gemini-cli-load-''"
  shows "prefix (trace w1 @ [Mkdtemp pre, TarExtract filePath tempDir])
     (trace (snd (restore_archive env root filePath selectedFile w1)))"
proof -
  have t2: "trace w2 = trace w1 @ [Mkdtemp pre]"
    using assms(1) sys_trace[of env "Mkdtemp pre" "fs_mkdtemp env pre" w1]
    by (simp add: op_mkdtemp_def)
  obtain r w3 where b: "restore_body env root filePath selectedFile tempDir w2 = (r, w3)"
    by (cases "restore_body env root filePath selectedFile tempDir w2")
  with restore_body_trace[of w2 filePath tempDir env root selectedFile]
  have p3: "prefix (trace w2 @ [TarExtract filePath tempDir]) (trace w3)" by simp
  have "prefix (trace w3) (trace (snd (op_rm env tempDir w3)))"
    by (simp add: op_rm_def grows_sys)
  with p3 have "prefix (trace w2 @ [TarExtract filePath tempDir]) (trace (snd (op_rm env tempDir w3)))"
    by (rule prefix_order.trans)
  with assms b t2 show ?thesis
    by (auto simp: restore_archive_def bindE_def finallyE_def split: prod.splits sum.splits)
qed

lemma load_legacy_trace:
  "trace (snd (load_legacy env ctx cfg filePath selectedFile w)) = trace w @ [ReadFile filePath]"
proof (cases "op_readFile env filePath w")
  case (Pair r w1)
  then have t: "trace w1 = trace w @ [ReadFile filePath]"
    using sys_trace[of env "ReadFile filePath" "fs_readFile filePath" w]
    by (simp add: op_readFile_def)
  show ?thesis
    using Pair t
    by (cases r)
       (auto simp: load_legacy_def bindE_def returnE_def throwE_def call_loadHistory_def
          call_setHistory_def split: sum.splits)
qed


lemma catchE_returnE_trace:
  "trace (snd (catchE m (\<lambda>e. returnE (h e)) w)) = trace (snd (m w))"
  by (simp add: catchE_def returnE_def split: prod.splits sum.splits)

lemma path_join_parent: "path_join (dir @ [d]) (''../'' @ s) = path_join dir s"
  by (simp add: path_join_def split: list.splits)

text \<open>
  C10. For a selected file name (the first token of the argument, not empty and not a
  flag), with the archives directory resolved: in the legacy branch the one call after
  \<open>mkdir\<close> is \<open>readFile\<close> on \<open>path.join(archivesDir, selectedFile)\<close>; in the
  restore branch with \<open>--force\<close>, once \<open>mkdtemp\<close> has returned the temporary
  directory, the next call is \<open>tar.extract\<close> of \<open>path.join(archivesDir, selectedFile)\<close>
  into it. Nothing keeps that path inside the archives directory: a leading \<open>../\<close>
  resolves the rest against the parent directory, and \<open>../secret.json\<close> names a file
  outside the archives directory.
\<close>

theorem C10_selected_path_unchecked:
  assumes "services_config ctx = Some cfg"
      and "fst (getArchivesDir env cfg w) = Inr (Some archivesDir)"
      and "parse_args args = (selectedFile, force)"
      and "selectedFile \<noteq> []"
  shows "(\<not> suffix ''.tar.gz'' selectedFile \<longrightarrow>
            trace (snd (loadAction env ctx args w)) =
              trace (snd (getArchivesDir env cfg w)) @ [ReadFile (path_join archivesDir selectedFile)])
       \<and> (suffix ''.tar.gz'' selectedFile \<and> force \<and> projectRoot cfg \<noteq> None \<longrightarrow>
            (\<forall>tempDir.
               fst (op_mkdtemp env (path_join (tmpdir env) ''gemini-cli-load-'')
                      (snd (getArchivesDir env cfg w))) = Inr tempDir \<longrightarrow>
               prefix (trace (snd (getArchivesDir env cfg w)) @
                         [Mkdtemp (path_join (tmpdir env) ''gemini-cli-load-''),
                          TarExtract (path_join archivesDir selectedFile) tempDir])
                      (trace (snd (loadAction env ctx args w)))))
       \<and> path_join (dir @ [ARCHIVES_DIR_NAME]) (''../'' @ rest) = path_join dir rest
       \<and> \<not> prefix (dir @ [ARCHIVES_DIR_NAME])
              (path_join (dir @ [ARCHIVES_DIR_NAME]) ''../secret.json'')"
proof -
  define w1 where "w1 = snd (getArchivesDir env cfg w)"
  have run: "loadAction env ctx args w =
      load_selected env ctx cfg archivesDir selectedFile force w1"
    using assms(3,4) by (simp add: loadAction_resolved[OF assms(1,2)] w1_def)
  have a: "\<not> suffix ''.tar.gz'' selectedFile \<longrightarrow>
            trace (snd (loadAction env ctx args w)) =
              trace w1 @ [ReadFile (path_join archivesDir selectedFile)]"
    by (simp add: run load_selected_legacy catchE_returnE_trace load_legacy_trace)
  have b: "suffix ''.tar.gz'' selectedFile \<and> force \<and> projectRoot cfg \<noteq> None \<longrightarrow>
            (\<forall>tempDir.
               fst (op_mkdtemp env (path_join (tmpdir env) ''gemini-cli-load-'') w1) = Inr tempDir \<longrightarrow>
               prefix (trace w1 @
                         [Mkdtemp (path_join (tmpdir env) ''gemini-cli-load-''),
                          TarExtract (path_join archivesDir selectedFile) tempDir])
                      (trace (snd (loadAction env ctx args w))))"
  proof (intro impI allI)
    fix tempDir
    assume h: "suffix ''.tar.gz'' selectedFile \<and> force \<and> projectRoot cfg \<noteq> None"
      and m: "fst (op_mkdtemp env (path_join (tmpdir env) ''gemini-cli-load-'') w1) = Inr tempDir"
    from h obtain root where root: "projectRoot cfg = Some root" by auto
    from m have m': "op_mkdtemp env (path_join (tmpdir env) ''gemini-cli-load-'') w1 =
        (Inr tempDir, snd (op_mkdtemp env (path_join (tmpdir env) ''gemini-cli-load-'') w1))"
      by (simp add: prod_eq_iff)
    have sel: "load_selected env ctx cfg archivesDir selectedFile force =
       catchE (restore_archive env root (path_join archivesDir selectedFile) selectedFile)
         (\<lambda>e. returnE (error_message
            (''Error loading archive '' @ selectedFile @ '': '' @ error_text e)))"
      using h root by (simp add: load_selected_def Let_def)
    show "prefix (trace w1 @
                         [Mkdtemp (path_join (tmpdir env) ''gemini-cli-load-''),
                          TarExtract (path_join archivesDir selectedFile) tempDir])
                      (trace (snd (loadAction env ctx args w)))"
      unfolding run sel catchE_returnE_trace
      by (rule restore_archive_trace[OF m' refl])
  qed
  have c: "path_join (dir @ [ARCHIVES_DIR_NAME]) (''../'' @ rest) = path_join dir rest"
    by (rule path_join_parent)
  have d: "\<not> prefix (dir @ [ARCHIVES_DIR_NAME])
              (path_join (dir @ [ARCHIVES_DIR_NAME]) ''../secret.json'')"
    by (simp add: path_join_def ARCHIVES_DIR_NAME_def)
  from a b c d show ?thesis unfolding w1_def by blast
qed

lemma example_escape_run:
  "trace (snd (loadAction example_env example_context ''../../../secret.json'' example_world)) =
     [Mkdir [''mock'', ''tmp'', ''project-temp'', ''archives''], ReadFile [''mock'', ''secret.json'']]
   \<and> ui_history (snd (loadAction example_env example_context ''../../../secret.json'' example_world)) =
     [JArr [JStr ''Hello'']]"
  by (simp add: handler_defs io_defs fs_defs example_defs Let_def suffix_to_prefix)

text \<open>C10 in the example world: \<open>/load ../../../secret.json\<close> reads
  \<open>/mock/secret.json\<close> and loads its history, and
  \<open>/load ../../../selected.tar.gz --force\<close> extracts \<open>/mock/selected.tar.gz\<close>.\<close>

theorem C10_witness:
  "trace (snd (loadAction example_env example_context ''../../../secret.json'' example_world)) =
     [Mkdir [''mock'', ''tmp'', ''project-temp'', ''archives''], ReadFile [''mock'', ''secret.json'']]
   \<and> \<not> prefix [''mock'', ''tmp'', ''project-temp'', ''archives''] [''mock'', ''secret.json'']
   \<and> ui_history (snd (loadAction example_env example_context ''../../../secret.json'' example_world)) =
     [JArr [JStr ''Hello'']]
   \<and> prefix [Mkdir [''mock'', ''tmp'', ''project-temp'', ''archives''],
             Mkdtemp [''mock'', ''tmp'', ''gemini-cli-load-''],
             TarExtract [''mock'', ''selected.tar.gz''] [''mock'', ''tmp'', ''gemini-cli-load-temp123'']]
        (trace (snd (loadAction example_env example_context ''../../../selected.tar.gz --force''
           example_world)))"
proof -
  have h1: "services_config example_context = Some example_config"
    by (simp add: example_context_def)
  have h2: "fst (getArchivesDir example_env example_config example_world) =
      Inr (Some [''mock'', ''tmp'', ''project-temp'', ''archives''])"
    by (simp add: example_getArchivesDir)
  have h3: "parse_args ''../../../secret.json'' = (''../../../secret.json'', False)"
    by (simp add: parse_args_def)
  have h3': "parse_args ''../../../selected.tar.gz --force'' = (''../../../selected.tar.gz'', True)"
    by (simp add: parse_args_def)
  have n: "\<not> suffix ''.tar.gz'' ''../../../secret.json''" by (simp add: suffix_to_prefix)
  have y: "suffix ''.tar.gz'' ''../../../selected.tar.gz''" by (simp add: suffix_to_prefix)
  have r: "projectRoot example_config \<noteq> None" by (simp add: example_config_def)
  have pj: "path_join [''mock'', ''tmp'', ''project-temp'', ''archives''] ''../../../secret.json'' =
      [''mock'', ''secret.json'']"
      "path_join [''mock'', ''tmp'', ''project-temp'', ''archives''] ''../../../selected.tar.gz'' =
      [''mock'', ''selected.tar.gz'']"
      "path_join (tmpdir example_env) ''gemini-cli-load-'' = [''mock'', ''tmp'', ''gemini-cli-load-'']"
    by (simp_all add: path_join_def example_env_def)
  have mk: "fst (op_mkdtemp example_env [''mock'', ''tmp'', ''gemini-cli-load-'']
      (snd (getArchivesDir example_env example_config example_world))) =
      Inr [''mock'', ''tmp'', ''gemini-cli-load-temp123'']"
    unfolding example_getArchivesDir snd_conv
    by (simp add: io_defs fs_defs example_defs Let_def)
  have t1: "trace (snd (getArchivesDir example_env example_config example_world)) =
      [Mkdir [''mock'', ''tmp'', ''project-temp'', ''archives'']]"
    by (simp add: example_getArchivesDir)
  from C10_selected_path_unchecked[OF h1 h2 h3, of "[]" "[]"] n
  have a: "trace (snd (loadAction example_env example_context ''../../../secret.json'' example_world)) =
     [Mkdir [''mock'', ''tmp'', ''project-temp'', ''archives''], ReadFile [''mock'', ''secret.json'']]"
    by (simp add: pj t1)
  from C10_selected_path_unchecked[OF h1 h2 h3', of "[]" "[]"] y r mk
  have b: "prefix [Mkdir [''mock'', ''tmp'', ''project-temp'', ''archives''],
             Mkdtemp [''mock'', ''tmp'', ''gemini-cli-load-''],
             TarExtract [''mock'', ''selected.tar.gz''] [''mock'', ''tmp'', ''gemini-cli-load-temp123'']]
        (trace (snd (loadAction example_env example_context ''../../../selected.tar.gz --force''
           example_world)))"
    by (simp add: pj t1)
  from a b example_escape_run show ?thesis by simp
qed

subsection \<open>Lookups after a removal or a placement\<close>

lemma fs_lookup_append:
  "fs_lookup (p @ q) t = (case fs_lookup p t of None \<Rightarrow> None | Some c \<Rightarrow> fs_lookup q c)"
proof (induction p arbitrary: t)
  case Nil
  show ?case by simp
next
  case (Cons x p)
  show ?case by (cases t) (simp_all add: Cons.IH split: option.splits)
qed

lemma fs_lookup_child:
  "fs_lookup p t = Some (Dir es) \<Longrightarrow> fs_lookup (p @ [n]) t = map_of es n"
  by (simp add: fs_lookup_append split: option.splits)

lemma fs_remove_self: "p \<noteq> [] \<Longrightarrow> fs_lookup p (fs_remove p t) = None"
proof (induction p arbitrary: t)
  case Nil
  then show ?case by simp
next
  case (Cons x p)
  show ?case
  proof (cases t)
    case (File s)
    then show ?thesis by simp
  next
    case (Dir es)
    show ?thesis
    proof (cases p)
      case Nil
      with Dir show ?thesis by (simp add: AList.delete_conv')
    next
      case (Cons y p')
      with Dir Cons.IH[of _] show ?thesis
        by (auto simp: AList.update_conv' split: option.splits)
    qed
  qed
qed

lemma fs_remove_other:
  "\<not> prefix p q \<Longrightarrow> \<not> prefix q p \<Longrightarrow> fs_lookup q (fs_remove p t) = fs_lookup q t"
proof (induction p arbitrary: q t)
  case Nil
  then show ?case by simp
next
  case (Cons x p)
  from Cons.prems obtain y q' where q: "q = y # q'" by (cases q) auto
  show ?case
  proof (cases t)
    case (File s)
    then show ?thesis by simp
  next
    case (Dir es)
    show ?thesis
    proof (cases "y = x")
      case False
      with Dir q show ?thesis
        by (cases p) (auto simp: AList.update_conv' AList.delete_conv' split: option.splits)
    next
      case True
      with Cons.prems q have np: "\<not> prefix p q'" "\<not> prefix q' p" by auto
      then obtain z p' where p: "p = z # p'" by (cases p) auto
      from Cons.IH[OF np] True Dir q p show ?thesis
        by (auto simp: AList.update_conv' split: option.splits)
    qed
  qed
qed

lemma place_new_other:
  "\<not> prefix p q \<Longrightarrow> \<not> prefix q p \<Longrightarrow> fs_lookup q (place_new p c) = None"
proof (induction p arbitrary: q)
  case Nil
  then show ?case by simp
next
  case (Cons x p)
  from Cons.prems obtain y q' where q: "q = y # q'" by (cases q) auto
  with Cons show ?case by auto
qed

lemma fs_place_other:
  "fs_place p f t = Inr t' \<Longrightarrow> \<not> prefix p q \<Longrightarrow> \<not> prefix q p \<Longrightarrow>
   fs_lookup q t' = fs_lookup q t"
proof (induction p arbitrary: q t t')
  case Nil
  then show ?case by simp
next
  case (Cons x p)
  from Cons.prems obtain y q' where q: "q = y # q'" by (cases q) auto
  show ?case
  proof (cases t)
    case (File s)
    with Cons.prems show ?thesis by simp
  next
    case (Dir es)
    show ?thesis
    proof (cases "map_of es x")
      case None
      with Cons.prems Dir obtain c where t': "t' = Dir (AList.update x (place_new p c) es)"
        by (auto split: sum.splits)
      show ?thesis
      proof (cases "y = x")
        case True
        with Cons.prems q have "\<not> prefix p q'" "\<not> prefix q' p" by auto
        then have "fs_lookup q' (place_new p c) = None" by (rule place_new_other)
        with True None Dir q t' show ?thesis by (simp add: AList.update_conv')
      next
        case False
        with Dir q t' show ?thesis by (simp add: AList.update_conv')
      qed
    next
      case (Some d)
      with Cons.prems Dir obtain d' where d': "fs_place p f d = Inr d'"
        and t': "t' = Dir (AList.update x d' es)"
        by (auto split: sum.splits)
      show ?thesis
      proof (cases "y = x")
        case True
        with Cons.prems q have np: "\<not> prefix p q'" "\<not> prefix q' p" by auto
        from Cons.IH[OF d' np] True Some Dir q t' show ?thesis
          by (simp add: AList.update_conv')
      next
        case False
        with Dir q t' show ?thesis by (simp add: AList.update_conv')
      qed
    qed
  qed
qed

text \<open>Two directories of which neither contains the other, and their entries.\<close>

lemma separate_children:
  assumes "\<not> prefix a b" and "\<not> prefix b a"
  shows "\<not> prefix (a @ [n]) (b @ [m])" and "\<not> prefix (a @ [n]) b" and "\<not> prefix b (a @ [n])"
  using assms by (auto simp: prefix_def append_eq_append_conv2 Cons_eq_append_conv)

lemma sibling_entries:
  "n \<noteq> m \<Longrightarrow> \<not> prefix (a @ [n]) (a @ [m])"
  by simp


subsection \<open>The two loops of the restore\<close>

lemma op_rm_Inr:
  assumes "op_rm env p w = (Inr u, w')"
  shows "fs w' = fs_remove p (fs w)"
  using assms unfolding op_rm_def by (rule sys_Inr) (simp add: fs_rm_def)

lemma op_cp_Inr:
  assumes "op_cp env src dst w = (Inr u, w')"
  obtains s where "fs_lookup src (fs w) = Some s"
    and "fs_place dst (copy_onto env s) (fs w) = Inr (fs w')"
proof -
  from assms[unfolded op_cp_def] obtain t where "fs_cp env src dst (fs w) = Inr (u, t)"
    and "w' = w\<lparr>trace := trace w @ [Cp src dst], fs := t\<rparr>"
    by (rule sys_Inr)
  then have "\<exists>s. fs_lookup src (fs w) = Some s \<and>
      fs_place dst (copy_onto env s) (fs w) = Inr (fs w')"
    by (auto simp: fs_cp_def split: option.splits sum.splits)
  then show ?thesis using that by blast
qed

lemma clear_loop_effect:
  assumes "clear_loop env root xs w = (Inr u, w')"
  shows "fs_lookup (root @ [n]) (fs w') =
           (if n \<in> set xs \<and> n \<notin> set filesToKeep then None else fs_lookup (root @ [n]) (fs w))"
  using assms
proof (induction xs arbitrary: w)
  case Nil
  then show ?case by (simp add: returnE_def)
next
  case (Cons x xs)
  show ?case
  proof (cases "x \<in> set filesToKeep")
    case True
    with Cons.prems have "clear_loop env root xs w = (Inr u, w')" by simp
    from Cons.IH[OF this] True show ?thesis by auto
  next
    case False
    with Cons.prems obtain v w1 where rm: "op_rm env (root @ [x]) w = (Inr v, w1)"
      and rest: "clear_loop env root xs w1 = (Inr u, w')"
      by (auto elim: bindE_Inr)
    note f1 = op_rm_Inr[OF rm]
    show ?thesis
    proof (cases "n = x")
      case True
      with Cons.IH[OF rest] f1 False show ?thesis by (simp add: fs_remove_self)
    next
      case False
      then have "fs_lookup (root @ [n]) (fs w1) = fs_lookup (root @ [n]) (fs w)"
        by (simp add: f1 fs_remove_other)
      with Cons.IH[OF rest] False show ?thesis by simp
    qed
  qed
qed

lemma clear_loop_frame:
  assumes "clear_loop env root xs w = (Inr u, w')"
      and "\<And>i. \<not> prefix (root @ [i]) q"
      and "\<And>i. \<not> prefix q (root @ [i])"
  shows "fs_lookup q (fs w') = fs_lookup q (fs w)"
  using assms(1)
proof (induction xs arbitrary: w)
  case Nil
  then show ?case by (simp add: returnE_def)
next
  case (Cons x xs)
  show ?case
  proof (cases "x \<in> set filesToKeep")
    case True
    with Cons.prems have "clear_loop env root xs w = (Inr u, w')" by simp
    from Cons.IH[OF this] show ?thesis .
  next
    case False
    with Cons.prems obtain v w1 where rm: "op_rm env (root @ [x]) w = (Inr v, w1)"
      and rest: "clear_loop env root xs w1 = (Inr u, w')"
      by (auto elim: bindE_Inr)
    have "fs_lookup q (fs w1) = fs_lookup q (fs w)"
      using fs_remove_other[OF assms(2)[of x] assms(3)[of x]] by (simp add: op_rm_Inr[OF rm])
    with Cons.IH[OF rest] show ?thesis by simp
  qed
qed

lemma move_loop_step:
  assumes "move_loop env tempDir root (x # xs) w = (Inr u, w')"
  obtains v w1 v' w2 where "op_cp env (tempDir @ [x]) (root @ [x]) w = (Inr v, w1)"
    and "op_rm env (tempDir @ [x]) w1 = (Inr v', w2)"
    and "move_loop env tempDir root xs w2 = (Inr u, w')"
  using assms unfolding move_loop.simps Let_def
  by (elim bindE_Inr) blast

lemma move_loop_effect:
  assumes "move_loop env tempDir root xs w = (Inr u, w')"
      and "distinct xs"
      and "\<not> prefix root tempDir" and "\<not> prefix tempDir root"
  shows "(n \<notin> set xs \<longrightarrow> fs_lookup (root @ [n]) (fs w') = fs_lookup (root @ [n]) (fs w))
       \<and> (n \<in> set xs \<longrightarrow> fs_lookup (root @ [n]) (fs w') \<noteq> None)
       \<and> (n \<in> set xs \<and> fs_lookup (root @ [n]) (fs w) = None \<longrightarrow>
            fs_lookup (root @ [n]) (fs w') = fs_lookup (tempDir @ [n]) (fs w))"
  using assms(1,2)
proof (induction xs arbitrary: w)
  case Nil
  then show ?case by (simp add: returnE_def)
next
  case (Cons x xs)
  from Cons.prems(1) obtain v w1 v' w2
    where cp: "op_cp env (tempDir @ [x]) (root @ [x]) w = (Inr v, w1)"
      and rm: "op_rm env (tempDir @ [x]) w1 = (Inr v', w2)"
      and rest: "move_loop env tempDir root xs w2 = (Inr u, w')"
    by (rule move_loop_step)
  from Cons.prems(2) have dx: "x \<notin> set xs" and ds: "distinct xs" by simp_all
  have tr: "\<And>a b. \<not> prefix (tempDir @ [a]) (root @ [b])"
    by (rule separate_children(1)[OF assms(4,3)])
  have rt: "\<And>a b. \<not> prefix (root @ [a]) (tempDir @ [b])"
    by (rule separate_children(1)[OF assms(3,4)])
  from cp obtain s where src: "fs_lookup (tempDir @ [x]) (fs w) = Some s"
    and pl: "fs_place (root @ [x]) (copy_onto env s) (fs w) = Inr (fs w1)"
    by (rule op_cp_Inr)
  note f2 = op_rm_Inr[OF rm]
  have root2: "\<And>m. fs_lookup (root @ [m]) (fs w2) = fs_lookup (root @ [m]) (fs w1)"
    unfolding f2 by (rule fs_remove_other[OF tr rt])
  have root1: "\<And>m. m \<noteq> x \<Longrightarrow> fs_lookup (root @ [m]) (fs w1) = fs_lookup (root @ [m]) (fs w)"
    by (rule fs_place_other[OF pl]) simp_all
  have temp1: "\<And>m. fs_lookup (tempDir @ [m]) (fs w1) = fs_lookup (tempDir @ [m]) (fs w)"
    by (rule fs_place_other[OF pl rt tr])
  have temp2: "\<And>m. m \<noteq> x \<Longrightarrow> fs_lookup (tempDir @ [m]) (fs w2) = fs_lookup (tempDir @ [m]) (fs w1)"
    unfolding f2 by (rule fs_remove_other) simp_all
  from fs_place_at[OF pl] obtain c where c: "copy_onto env s (fs_lookup (root @ [x]) (fs w)) = Inr c"
    and at: "fs_lookup (root @ [x]) (fs w1) = Some c" by blast
  note ih = Cons.IH[OF rest ds]
  show ?case
  proof (cases "n = x")
    case True
    from ih dx True have "fs_lookup (root @ [n]) (fs w') = fs_lookup (root @ [x]) (fs w2)" by simp
    with root2 at have fin: "fs_lookup (root @ [n]) (fs w') = Some c" by simp
    have "fs_lookup (root @ [x]) (fs w) = None \<Longrightarrow> c = s"
      using c by (simp add: copy_onto_def)
    with fin src True show ?thesis by auto
  next
    case False
    with ih root2 root1 temp1 temp2 show ?thesis by auto
  qed
qed


subsection \<open>The restore\<close>

lemma temp_dir_of_nonempty: "temp_dir_of env pre \<noteq> []"
  by (simp add: temp_dir_of_def split: list.splits)

lemma op_mkdtemp_Inr:
  assumes "op_mkdtemp env pre w = (Inr tempDir, w')"
  shows "tempDir \<noteq> [] \<and> fs_lookup tempDir (fs w') = Some (Dir [])"
proof -
  from assms[unfolded op_mkdtemp_def] obtain t where m: "fs_mkdtemp env pre (fs w) = Inr (tempDir, t)"
    and w': "w' = w\<lparr>trace := trace w @ [Mkdtemp pre], fs := t\<rparr>"
    by (rule sys_Inr)
  from m have d: "tempDir = temp_dir_of env pre"
    and n: "fs_lookup tempDir (fs w) = None"
    and p: "fs_place tempDir ensure_dir (fs w) = Inr t"
    by (auto simp: fs_mkdtemp_def Let_def split: option.splits node.splits sum.splits)
  from fs_place_at[OF p] n have "fs_lookup tempDir t = Some (Dir [])"
    by (auto simp: ensure_dir_def)
  with d w' show ?thesis by (simp add: temp_dir_of_nonempty)
qed

lemma op_tar_extract_Inr:
  assumes "op_tar_extract env file cwd w = (Inr u, w')"
  obtains bytes d0 d where "fs_lookup file (fs w) = Some (File bytes)"
    and "fs_lookup cwd (fs w) = Some d0" and "untar env bytes d0 = Inr d"
    and "fs_lookup cwd (fs w') = Some d"
proof -
  from assms[unfolded op_tar_extract_def] obtain t
    where x: "fs_tar_extract env file cwd (fs w) = Inr (u, t)"
      and w': "w' = w\<lparr>trace := trace w @ [TarExtract file cwd], fs := t\<rparr>"
    by (rule sys_Inr)
  from x obtain bytes es d where b: "fs_lookup file (fs w) = Some (File bytes)"
    and c: "fs_lookup cwd (fs w) = Some (Dir es)" and un: "untar env bytes (Dir es) = Inr d"
    and p: "fs_place cwd (\<lambda>n. Inr d) (fs w) = Inr t"
    by (auto simp: fs_tar_extract_def split: option.splits node.splits sum.splits)
  from fs_place_at[OF p] have "fs_lookup cwd t = Some d" by simp
  with b c un w' show ?thesis by (intro that[of bytes "Dir es" d]) simp_all
qed

lemma op_readdir_Inr:
  assumes "op_readdir env p w = (Inr names, w')"
  obtains es where "fs_lookup p (fs w) = Some (Dir es)" and "names = entry_names es"
    and "fs w' = fs w"
proof -
  from assms[unfolded op_readdir_def] obtain t where r: "fs_readdir p (fs w) = Inr (names, t)"
    and w': "w' = w\<lparr>trace := trace w @ [Readdir p], fs := t\<rparr>"
    by (rule sys_Inr)
  from r have "\<exists>es. fs_lookup p (fs w) = Some (Dir es) \<and> names = entry_names es \<and> t = fs w"
    by (auto simp: fs_readdir_def split: option.splits node.splits)
  with w' show ?thesis using that by auto
qed

lemma restore_body_success:
  assumes body: "restore_body env root filePath selectedFile tempDir w2 = (Inr msg, w3)"
      and tmp: "fs_lookup tempDir (fs w2) = Some (Dir [])"
      and sep: "\<not> prefix root tempDir" "\<not> prefix tempDir root"
  shows "\<exists>bytes es. fs_lookup filePath (fs w2) = Some (File bytes)
           \<and> untar env bytes (Dir []) = Inr (Dir es)
           \<and> (\<forall>n. n \<notin> set filesToKeep \<longrightarrow> fs_lookup (root @ [n]) (fs w3) = map_of es n)
           \<and> (\<forall>n \<in> fst ` set es. fs_lookup (root @ [n]) (fs w3) \<noteq> None)"
proof -
  from body[unfolded restore_body_def] obtain u1 wa names wb u3 wc ms wd u5 we
    where ex: "op_tar_extract env filePath tempDir w2 = (Inr u1, wa)"
      and rd1: "op_readdir env root wa = (Inr names, wb)"
      and cl: "clear_loop env root names wb = (Inr u3, wc)"
      and rd2: "op_readdir env tempDir wc = (Inr ms, wd)"
      and mv: "move_loop env tempDir root ms wd = (Inr u5, we)"
      and fin: "returnE (info_message
         (''Archive '' @ apostrophe @ selectedFile @ apostrophe @
          '' loaded and extracted successfully to '' @ path_str root @ ''.'')) we = (Inr msg, w3)"
    by (elim bindE_Inr) blast
  from fin have w3: "w3 = we" by (simp add: returnE_def)
  from ex tmp obtain bytes d where b: "fs_lookup filePath (fs w2) = Some (File bytes)"
    and un: "untar env bytes (Dir []) = Inr d" and ta: "fs_lookup tempDir (fs wa) = Some d"
    by (auto elim: op_tar_extract_Inr)
  from rd1 obtain rs where ra: "fs_lookup root (fs wa) = Some (Dir rs)"
    and names: "names = entry_names rs" and fb: "fs wb = fs wa"
    by (rule op_readdir_Inr)
  have cleared: "fs_lookup (root @ [n]) (fs wc) = None" if "n \<notin> set filesToKeep" for n
  proof (cases "n \<in> set names")
    case True
    with that clear_loop_effect[OF cl, of n] show ?thesis by simp
  next
    case False
    then have "map_of rs n = None"
      by (simp add: names entry_names_def map_of_eq_None_iff)
    with False clear_loop_effect[OF cl, of n] ra fb show ?thesis
      by (simp add: fs_lookup_child)
  qed
  have "fs_lookup tempDir (fs wc) = fs_lookup tempDir (fs wb)"
    by (rule clear_loop_frame[OF cl separate_children(2)[OF sep] separate_children(3)[OF sep]])
  with ta fb have tc: "fs_lookup tempDir (fs wc) = Some d" by simp
  from rd2 obtain es where tc': "fs_lookup tempDir (fs wc) = Some (Dir es)"
    and ms: "ms = entry_names es" and fd: "fs wd = fs wc"
    by (rule op_readdir_Inr)
  from tc tc' have d: "d = Dir es" by simp
  have src: "fs_lookup (tempDir @ [n]) (fs wd) = map_of es n" for n
    using tc d fd by (simp add: fs_lookup_child)
  have dist: "distinct ms" by (simp add: ms entry_names_def)
  have mem: "n \<in> set ms \<longleftrightarrow> n \<in> fst ` set es" for n
    by (simp add: ms entry_names_def)
  note eff = move_loop_effect[OF mv dist sep]
  have 1: "fs_lookup (root @ [n]) (fs w3) = map_of es n" if "n \<notin> set filesToKeep" for n
  proof (cases "n \<in> set ms")
    case True
    with eff[of n] cleared[OF that] fd src[of n] w3 show ?thesis by simp
  next
    case False
    then have "map_of es n = None" by (simp add: mem map_of_eq_None_iff)
    with False eff[of n] cleared[OF that] fd w3 show ?thesis by simp
  qed
  have 2: "fs_lookup (root @ [n]) (fs w3) \<noteq> None" if "n \<in> fst ` set es" for n
    using that eff[of n] mem[of n] w3 by simp
  from b un d 1 2 show ?thesis by blast
qed

lemma snd_finallyE: "snd (finallyE m c w) = snd (c (snd (m w)))"
  by (simp add: finallyE_def split: prod.splits sum.splits)

lemma snd_catchE_returnE: "snd (catchE m (\<lambda>e. returnE (h e)) w) = snd (m w)"
  by (simp add: catchE_def returnE_def split: prod.splits sum.splits)

lemma finallyE_Inr:
  assumes "finallyE m c w = (Inr x, w')"
  obtains w1 u where "m w = (Inr x, w1)" and "c w1 = (Inr u, w')"
  using assms by (auto simp: finallyE_def split: prod.splits sum.splits)

lemma cleanup_removes:
  assumes "tempDir \<noteq> []"
  shows "last (trace (snd (op_rm env tempDir w))) = Rm tempDir
       \<and> (denied env (Rm tempDir) = None \<longrightarrow> fs_lookup tempDir (fs (snd (op_rm env tempDir w))) = None)"
  using assms
  by (simp add: op_rm_def sys_trace) (simp add: sys_def Let_def fs_rm_def fs_remove_self)


lemma load_selected_forced:
  assumes "suffix ''.tar.gz'' selectedFile" and "projectRoot cfg = Some root"
  shows "load_selected env ctx cfg archivesDir selectedFile True =
     catchE (restore_archive env root (path_join archivesDir selectedFile) selectedFile)
       (\<lambda>e. returnE (error_message
          (''Error loading archive '' @ selectedFile @ '': '' @ error_text e)))"
  using assms by (simp add: load_selected_def Let_def)

text \<open>
  C1, as amended. A restore of a \<open>.tar.gz\<close> file with \<open>--force\<close>, the project root
  resolved, the temporary directory created, and neither the project root nor the
  temporary directory inside the other.
  \<^item> When the handler returns its success message: the archive file held some bytes that
    \<open>tar.extract\<close> unpacked into the empty temporary directory as the entries \<open>es\<close>;
    afterwards every name at the project root other than \<open>.git\<close>, \<open>node_modules\<close> and
    \<open>archives\<close> holds exactly the extracted entry of that name, and nothing when there
    is none, so that every other entry that was there before the call is gone; and every
    extracted top-level entry is present at the project root.
  \<^item> On every exit path the last call is the removal of the temporary directory, and
    unless the operating system refuses that removal the directory no longer exists when
    the handler returns.
\<close>

theorem C1_forced_restore:
  assumes "services_config ctx = Some cfg"
      and "fst (getArchivesDir env cfg w) = Inr (Some archivesDir)"
      and "parse_args args = (selectedFile, True)"
      and "suffix ''.tar.gz'' selectedFile"
      and "projectRoot cfg = Some root"
      and "op_mkdtemp env (path_join (tmpdir env) ''gemini-cli-load-'')
             (snd (getArchivesDir env cfg w)) = (Inr tempDir, w2)"
      and "\<not> prefix root tempDir" and "\<not> prefix tempDir root"
  shows "(\<forall>msg. fst (loadAction env ctx args w) = Inr msg \<and> messageType msg = MInfo \<longrightarrow>
           (\<exists>bytes es.
              fs_lookup (path_join archivesDir selectedFile) (fs w2) = Some (File bytes)
              \<and> untar env bytes (Dir []) = Inr (Dir es)
              \<and> (\<forall>n. fs_lookup (root @ [n]) (fs w) \<noteq> None \<and> n \<notin> set filesToKeep
                       \<and> n \<notin> fst ` set es \<longrightarrow>
                     fs_lookup (root @ [n]) (fs (snd (loadAction env ctx args w))) = None)
              \<and> (\<forall>n. n \<notin> set filesToKeep \<longrightarrow>
                     fs_lookup (root @ [n]) (fs (snd (loadAction env ctx args w))) = map_of es n)
              \<and> (\<forall>n \<in> fst ` set es.
                     fs_lookup (root @ [n]) (fs (snd (loadAction env ctx args w))) \<noteq> None)))
       \<and> last (trace (snd (loadAction env ctx args w))) = Rm tempDir
       \<and> (denied env (Rm tempDir) = None \<longrightarrow>
            fs_lookup tempDir (fs (snd (loadAction env ctx args w))) = None)"
proof -
  define w1 where "w1 = snd (getArchivesDir env cfg w)"
  define filePath where "filePath = path_join archivesDir selectedFile"
  define body where "body = restore_body env root filePath selectedFile tempDir"
  note mk = assms(6)[folded w1_def]
  from op_mkdtemp_Inr[OF mk] have ne: "tempDir \<noteq> []"
    and tmp: "fs_lookup tempDir (fs w2) = Some (Dir [])" by simp_all
  have ne_sel: "selectedFile \<noteq> []" using assms(4) by (auto simp: suffix_def)
  have run: "loadAction env ctx args w =
      catchE (restore_archive env root filePath selectedFile)
        (\<lambda>e. returnE (error_message
           (''Error loading archive '' @ selectedFile @ '': '' @ error_text e))) w1"
    using assms(3) ne_sel
    by (simp add: loadAction_resolved[OF assms(1,2)] load_selected_forced[OF assms(4,5)]
        w1_def filePath_def)
  have ra: "restore_archive env root filePath selectedFile w1 = finallyE body (op_rm env tempDir) w2"
    using mk by (simp add: restore_archive_def bindE_def body_def)
  have final: "snd (loadAction env ctx args w) = snd (op_rm env tempDir (snd (body w2)))"
    by (simp add: run snd_catchE_returnE ra snd_finallyE)
  note cl = cleanup_removes[OF ne, of env "snd (body w2)"]
  have success: "\<exists>bytes es.
              fs_lookup filePath (fs w2) = Some (File bytes)
              \<and> untar env bytes (Dir []) = Inr (Dir es)
              \<and> (\<forall>n. n \<notin> set filesToKeep \<longrightarrow>
                     fs_lookup (root @ [n]) (fs (snd (loadAction env ctx args w))) = map_of es n)
              \<and> (\<forall>n \<in> fst ` set es.
                     fs_lookup (root @ [n]) (fs (snd (loadAction env ctx args w))) \<noteq> None)"
    if ok: "fst (loadAction env ctx args w) = Inr msg" and info: "messageType msg = MInfo" for msg
  proof -
    define w' where "w' = snd (loadAction env ctx args w)"
    from ok have c: "catchE (restore_archive env root filePath selectedFile)
        (\<lambda>e. returnE (error_message
           (''Error loading archive '' @ selectedFile @ '': '' @ error_text e))) w1 = (Inr msg, w')"
      unfolding run[symmetric] w'_def by (simp add: prod_eq_iff)
    from c have r: "restore_archive env root filePath selectedFile w1 = (Inr msg, w')"
    proof (cases rule: catchE_Inr)
      case 1
      then show ?thesis .
    next
      case (2 e wx)
      then have "messageType msg = MError" by (auto simp: returnE_def error_message_def)
      with info show ?thesis by simp
    qed
    from r[unfolded ra] obtain w3 u where b: "body w2 = (Inr msg, w3)"
      and rm: "op_rm env tempDir w3 = (Inr u, w')"
      by (rule finallyE_Inr)
    from restore_body_success[OF b[unfolded body_def] tmp assms(7,8)]
    obtain bytes es where f: "fs_lookup filePath (fs w2) = Some (File bytes)"
      and un: "untar env bytes (Dir []) = Inr (Dir es)"
      and 1: "\<And>n. n \<notin> set filesToKeep \<Longrightarrow> fs_lookup (root @ [n]) (fs w3) = map_of es n"
      and 2: "\<And>n. n \<in> fst ` set es \<Longrightarrow> fs_lookup (root @ [n]) (fs w3) \<noteq> None"
      by blast
    have keep: "fs_lookup (root @ [n]) (fs w') = fs_lookup (root @ [n]) (fs w3)" for n
      unfolding op_rm_Inr[OF rm]
      by (rule fs_remove_other[OF separate_children(3)[OF assms(7,8)]
            separate_children(2)[OF assms(7,8)]])
    from f un 1 2 show ?thesis
      unfolding w'_def[symmetric] keep by blast
  qed
  have a: "\<forall>msg. fst (loadAction env ctx args w) = Inr msg \<and> messageType msg = MInfo \<longrightarrow>
           (\<exists>bytes es.
              fs_lookup filePath (fs w2) = Some (File bytes)
              \<and> untar env bytes (Dir []) = Inr (Dir es)
              \<and> (\<forall>n. fs_lookup (root @ [n]) (fs w) \<noteq> None \<and> n \<notin> set filesToKeep
                       \<and> n \<notin> fst ` set es \<longrightarrow>
                     fs_lookup (root @ [n]) (fs (snd (loadAction env ctx args w))) = None)
              \<and> (\<forall>n. n \<notin> set filesToKeep \<longrightarrow>
                     fs_lookup (root @ [n]) (fs (snd (loadAction env ctx args w))) = map_of es n)
              \<and> (\<forall>n \<in> fst ` set es.
                     fs_lookup (root @ [n]) (fs (snd (loadAction env ctx args w))) \<noteq> None))"
  proof (intro allI impI)
    fix msg
    assume h: "fst (loadAction env ctx args w) = Inr msg \<and> messageType msg = MInfo"
    from success[of msg] h obtain bytes es where f: "fs_lookup filePath (fs w2) = Some (File bytes)"
      and un: "untar env bytes (Dir []) = Inr (Dir es)"
      and 1: "\<forall>n. n \<notin> set filesToKeep \<longrightarrow>
                     fs_lookup (root @ [n]) (fs (snd (loadAction env ctx args w))) = map_of es n"
      and 2: "\<forall>n \<in> fst ` set es.
                     fs_lookup (root @ [n]) (fs (snd (loadAction env ctx args w))) \<noteq> None"
      by blast
    have 0: "\<forall>n. fs_lookup (root @ [n]) (fs w) \<noteq> None \<and> n \<notin> set filesToKeep
                       \<and> n \<notin> fst ` set es \<longrightarrow>
                     fs_lookup (root @ [n]) (fs (snd (loadAction env ctx args w))) = None"
      using 1 by (simp add: map_of_eq_None_iff)
    from f un 0 1 2 show "\<exists>bytes es.
              fs_lookup filePath (fs w2) = Some (File bytes)
              \<and> untar env bytes (Dir []) = Inr (Dir es)
              \<and> (\<forall>n. fs_lookup (root @ [n]) (fs w) \<noteq> None \<and> n \<notin> set filesToKeep
                       \<and> n \<notin> fst ` set es \<longrightarrow>
                     fs_lookup (root @ [n]) (fs (snd (loadAction env ctx args w))) = None)
              \<and> (\<forall>n. n \<notin> set filesToKeep \<longrightarrow>
                     fs_lookup (root @ [n]) (fs (snd (loadAction env ctx args w))) = map_of es n)
              \<and> (\<forall>n \<in> fst ` set es.
                     fs_lookup (root @ [n]) (fs (snd (loadAction env ctx args w))) \<noteq> None)"
      by blast
  qed
  from a cl show ?thesis
    unfolding final filePath_def by blast
qed


lemma example_restore_run:
  "fst (loadAction example_env example_context ''selected.tar.gz --force'' example_world) =
     Inr \<lparr>messageType = MInfo,
          content = ''Archive '' @ apostrophe @ ''selected.tar.gz'' @ apostrophe @
                    '' loaded and extracted successfully to /mock/path/test-project.''\<rparr>
   \<and> fs_lookup [''mock'', ''path'', ''test-project'']
        (fs (snd (loadAction example_env example_context ''selected.tar.gz --force'' example_world))) =
       Some (Dir [(''.git'', Dir []), (''extracted_file.txt'', File ''new''),
                  (''extracted_dir'', Dir [])])"
  by (simp add: handler_defs io_defs fs_defs example_defs Let_def suffix_to_prefix)

lemma example_mkdtemp:
  "op_mkdtemp example_env [''mock'', ''tmp'', ''gemini-cli-load-'']
     (example_world\<lparr>trace := [Mkdir [''mock'', ''tmp'', ''project-temp'', ''archives'']]\<rparr>) =
   (Inr [''mock'', ''tmp'', ''gemini-cli-load-temp123''],
    \<lparr>fs = Dir [(''mock'',
       Dir [(''tmp'', Dir [(''project-temp'', Dir [(''archives'', example_archives ''[]'')]),
                           (''gemini-cli-load-temp123'', Dir [])]),
            (''path'', Dir [(''test-project'', example_project)]),
            (''secret.json'', File ''{history}'')])],
     trace = [Mkdir [''mock'', ''tmp'', ''project-temp'', ''archives''],
              Mkdtemp [''mock'', ''tmp'', ''gemini-cli-load-'']],
     ui_history = [], client_history = [], items = []\<rparr>)"
  by (simp add: io_defs fs_defs example_env_def example_world_def example_fs_def world_of_def Let_def)

text \<open>The amended C1 in the example world: \<open>file1.txt\<close> is gone, the extracted file
  has arrived, \<open>.git\<close> is kept, and the temporary directory is removed.\<close>

theorem C1_witness:
  "messageType (projr (fst (loadAction example_env example_context ''selected.tar.gz --force''
      example_world))) = MInfo
   \<and> fs_lookup [''mock'', ''path'', ''test-project'', ''file1.txt''] (fs example_world)
       = Some (File ''old'')
   \<and> fs_lookup [''mock'', ''path'', ''test-project'', ''file1.txt'']
        (fs (snd (loadAction example_env example_context ''selected.tar.gz --force'' example_world)))
       = None
   \<and> fs_lookup [''mock'', ''path'', ''test-project'', ''extracted_file.txt'']
        (fs (snd (loadAction example_env example_context ''selected.tar.gz --force'' example_world)))
       = Some (File ''new'')
   \<and> fs_lookup [''mock'', ''path'', ''test-project'', ''.git'']
        (fs (snd (loadAction example_env example_context ''selected.tar.gz --force'' example_world)))
       = Some (Dir [])
   \<and> fs_lookup [''mock'', ''tmp'', ''gemini-cli-load-temp123'']
        (fs (snd (loadAction example_env example_context ''selected.tar.gz --force'' example_world)))
       = None
   \<and> last (trace (snd (loadAction example_env example_context ''selected.tar.gz --force''
        example_world))) = Rm [''mock'', ''tmp'', ''gemini-cli-load-temp123'']"
proof -
  let ?root = "[''mock'', ''path'', ''test-project'']"
  let ?temp = "[''mock'', ''tmp'', ''gemini-cli-load-temp123'']"
  let ?run = "loadAction example_env example_context ''selected.tar.gz --force'' example_world"
  have h1: "services_config example_context = Some example_config"
    by (simp add: example_context_def)
  have h2: "fst (getArchivesDir example_env example_config example_world) =
      Inr (Some [''mock'', ''tmp'', ''project-temp'', ''archives''])"
    by (simp add: example_getArchivesDir)
  have h3: "parse_args ''selected.tar.gz --force'' = (''selected.tar.gz'', True)"
    by (simp add: parse_args_def)
  have h5: "projectRoot example_config = Some ?root" by (simp add: example_config_def)
  have pj: "path_join (tmpdir example_env) ''gemini-cli-load-'' = [''mock'', ''tmp'', ''gemini-cli-load-'']"
    by (simp add: path_join_def example_env_def)
  have h6: "op_mkdtemp example_env (path_join (tmpdir example_env) ''gemini-cli-load-'')
      (snd (getArchivesDir example_env example_config example_world)) =
      (Inr ?temp, snd (op_mkdtemp example_env [''mock'', ''tmp'', ''gemini-cli-load-'']
         (example_world\<lparr>trace := [Mkdir [''mock'', ''tmp'', ''project-temp'', ''archives'']]\<rparr>)))"
    unfolding pj example_getArchivesDir snd_conv by (simp add: example_mkdtemp)
  have h7: "\<not> prefix ?root ?temp" and h8: "\<not> prefix ?temp ?root" by simp_all
  have dn: "denied example_env (Rm ?temp) = None" by (simp add: example_env_def)
  have ok: "fst ?run = Inr (projr (fst ?run)) \<and> messageType (projr (fst ?run)) = MInfo"
    by (simp add: example_restore_run)
  note c1 = C1_forced_restore[OF h1 h2 h3 example_suffix h5 h6 h7 h8]
  from c1 dn have t: "fs_lookup ?temp (fs (snd ?run)) = None" and l: "last (trace (snd ?run)) = Rm ?temp"
    by blast+
  from c1 ok obtain bytes es
    where f: "fs_lookup (path_join [''mock'', ''tmp'', ''project-temp'', ''archives''] ''selected.tar.gz'')
        (fs (snd (op_mkdtemp example_env [''mock'', ''tmp'', ''gemini-cli-load-'']
         (example_world\<lparr>trace := [Mkdir [''mock'', ''tmp'', ''project-temp'', ''archives'']]\<rparr>))))
        = Some (File bytes)"
      and un: "untar example_env bytes (Dir []) = Inr (Dir es)"
      and 1: "\<forall>n. n \<notin> set filesToKeep \<longrightarrow> fs_lookup (?root @ [n]) (fs (snd ?run)) = map_of es n"
    by blast
  from f have bytes: "bytes = ''TAR''"
    by (simp add: example_mkdtemp path_join_def example_archives_def)
  from un have es: "es = [(''extracted_file.txt'', File ''new''), (''extracted_dir'', Dir [])]"
    by (simp add: bytes example_env_def)
  from 1[rule_format, of "''file1.txt''"] have a: "fs_lookup (?root @ [''file1.txt'']) (fs (snd ?run)) = None"
    by (simp add: es filesToKeep_def ARCHIVES_DIR_NAME_def)
  from 1[rule_format, of "''extracted_file.txt''"]
  have b: "fs_lookup (?root @ [''extracted_file.txt'']) (fs (snd ?run)) = Some (File ''new'')"
    by (simp add: es filesToKeep_def ARCHIVES_DIR_NAME_def)
  have before: "fs_lookup [''mock'', ''path'', ''test-project'', ''file1.txt''] (fs example_world)
       = Some (File ''old'')"
    by (simp add: example_defs)
  have git: "fs_lookup [''mock'', ''path'', ''test-project'', ''.git''] (fs (snd ?run)) = Some (Dir [])"
    using example_restore_run fs_lookup_child[of ?root "fs (snd ?run)" _ "''.git''"] by simp
  from ok a b t l before git show ?thesis by simp
qed

text \<open>C1 as stated fails twice. Where the archive file does not exist the extraction
  throws, the handler returns an error message and \<open>file1.txt\<close> is still at the project
  root. Where the operating system refuses the removal of the temporary directory, the
  handler returns an error message and the directory is still there.\<close>

theorem C1_counterexample:
  "fst (loadAction example_env example_context ''missing.tar.gz --force'' example_world) =
     Inr \<lparr>messageType = MError,
          content = ''Error loading archive missing.tar.gz: Error: ENOENT''\<rparr>
   \<and> fs_lookup [''mock'', ''path'', ''test-project'', ''file1.txt''] (fs example_world)
       = Some (File ''old'')
   \<and> fs_lookup [''mock'', ''path'', ''test-project'', ''file1.txt'']
        (fs (snd (loadAction example_env example_context ''missing.tar.gz --force'' example_world)))
       = Some (File ''old'')
   \<and> fst (loadAction stubborn_env example_context ''selected.tar.gz --force'' example_world) =
     Inr \<lparr>messageType = MError,
          content = ''Error loading archive selected.tar.gz: Error: EACCES''\<rparr>
   \<and> fs_lookup [''mock'', ''tmp'', ''gemini-cli-load-temp123''] (fs example_world) = None
   \<and> fs_lookup [''mock'', ''tmp'', ''gemini-cli-load-temp123'']
        (fs (snd (loadAction stubborn_env example_context ''selected.tar.gz --force'' example_world)))
       = Some (Dir [])"
proof -
  have 1: "fst (loadAction example_env example_context ''missing.tar.gz --force'' example_world) =
     Inr \<lparr>messageType = MError,
          content = ''Error loading archive missing.tar.gz: Error: ENOENT''\<rparr>
   \<and> fs_lookup [''mock'', ''path'', ''test-project'', ''file1.txt'']
        (fs (snd (loadAction example_env example_context ''missing.tar.gz --force'' example_world)))
       = Some (File ''old'')"
    by (simp add: handler_defs io_defs fs_defs example_defs Let_def suffix_to_prefix)
  have 2: "fst (loadAction stubborn_env example_context ''selected.tar.gz --force'' example_world) =
     Inr \<lparr>messageType = MError,
          content = ''Error loading archive selected.tar.gz: Error: EACCES''\<rparr>
   \<and> fs_lookup [''mock'', ''tmp'', ''gemini-cli-load-temp123'']
        (fs (snd (loadAction stubborn_env example_context ''selected.tar.gz --force'' example_world)))
       = Some (Dir [])"
    by (simp add: handler_defs io_defs fs_defs example_defs Let_def suffix_to_prefix)
  have 3: "fs_lookup [''mock'', ''path'', ''test-project'', ''file1.txt''] (fs example_world)
       = Some (File ''old'')
     \<and> fs_lookup [''mock'', ''tmp'', ''gemini-cli-load-temp123''] (fs example_world) = None"
    by (simp add: example_defs)
  from 1 2 3 show ?thesis by simp
qed

subsection \<open>Where the handlers do catch\<close>

text \<open>Once \<open>getArchivesDir\<close> has returned, the two handlers and the completion provider
  return a value whatever the later calls do: every exception after that point is caught.
  The exception of \<open>getArchivesDir\<close> itself is the only one that leaves them.\<close>

lemma catchE_returnE_returns: "\<exists>x. fst (catchE m (\<lambda>e. returnE (h e)) w) = Inr x"
  by (simp add: catchE_def returnE_def split: prod.splits sum.splits)

lemma handlers_return_once_resolved:
  assumes "services_config ctx = Some cfg"
      and "fst (getArchivesDir env cfg w) = Inr dir"
  shows "(\<exists>msg. fst (loadAction env ctx args w) = Inr msg)
       \<and> (\<exists>msg. fst (saveAction env ctx args w) = Inr msg)
       \<and> (\<exists>cs. fst (completion env ctx partialArg w) = Inr cs)"
proof (cases dir)
  case None
  with assms show ?thesis
    by (cases "getArchivesDir env cfg w")
       (simp add: loadAction_def saveAction_def completion_def)
next
  case (Some archivesDir)
  with assms(2) have r: "fst (getArchivesDir env cfg w) = Inr (Some archivesDir)" by simp
  have "\<exists>msg. fst (loadAction env ctx args w) = Inr msg"
    unfolding loadAction_resolved[OF assms(1) r] list_archives_def load_selected_def
    by (simp add: catchE_returnE_returns)
  moreover have "\<exists>msg. fst (saveAction env ctx args w) = Inr msg"
    unfolding saveAction_resolved[OF assms(1) r] by (rule catchE_returnE_returns)
  moreover have "\<exists>cs. fst (completion env ctx partialArg w) = Inr cs"
    unfolding completion_resolved[OF assms(1) r]
    by (simp add: catchE_def returnE_def split: prod.splits sum.splits)
  ultimately show ?thesis by blast
qed

end
